theory Spec2Isabelle
  imports Complex_Main "HOL-Library.AList" "HOL-Library.Multiset"
begin

section \<open>Python values, dictionaries and exceptions\<close>

text \<open>
  The element and slide classes of \<^verbatim>\<open>models/content.py\<close> exchange untyped documents
  (\<^verbatim>\<open>Dict[str, Any]\<close>). A document value is a \<open>pyval\<close>; a dictionary is an association
  list with string keys kept in insertion order, as a Python \<^verbatim>\<open>dict\<close> keeps them.
  A Python \<^verbatim>\<open>str\<close> is a \<open>string\<close>, one \<open>char\<close> per character, which covers the code
  points below 256.
\<close>

datatype pyval =
    PNone
  | PBool bool
  | PInt int
  | PFloat real
  | PStr string
  | PList "pyval list"
  | PTuple "pyval list"
  | PDict "(string \<times> pyval) list"

type_synonym pydict = "(string \<times> pyval) list"

text \<open>
  Exceptions are values. \<open>Unmodelled\<close> marks the one place where the typed model is
  narrower than Python: a document or keyword that stores a value of another dynamic type
  in an attribute the model types (\<^verbatim>\<open>id\<close>, \<^verbatim>\<open>type\<close>, \<^verbatim>\<open>z_index\<close>, \<^verbatim>\<open>image_path\<close>, the slide's
  \<^verbatim>\<open>version\<close>, \<^verbatim>\<open>element_order\<close> and \<^verbatim>\<open>change_history\<close>); Python would store it unchecked.
\<close>

datatype error = KeyError | AttributeError | TypeError | ValueError | Unmodelled

definition ebind :: "error + 'a \<Rightarrow> ('a \<Rightarrow> error + 'b) \<Rightarrow> error + 'b" where
  "ebind m f = (case m of Inl e \<Rightarrow> Inl e | Inr a \<Rightarrow> f a)"

definition dict_get :: "pydict \<Rightarrow> string \<Rightarrow> pyval \<Rightarrow> pyval" where
  \<comment> \<open>\<^verbatim>\<open>d.get(k, default)\<close>\<close>
  "dict_get d k dflt = (case map_of d k of None \<Rightarrow> dflt | Some v \<Rightarrow> v)"

definition dict_update :: "pydict \<Rightarrow> pydict \<Rightarrow> pydict" where
  \<comment> \<open>\<^verbatim>\<open>d.update(other)\<close>: a present key keeps its place, a new key goes last\<close>
  "dict_update d other = fold (\<lambda>(k, v). AList.update k v) other d"

definition as_dict :: "pyval \<Rightarrow> error + pydict" where
  \<comment> \<open>the receiver of a \<^verbatim>\<open>.get\<close> call; any other value has no such attribute\<close>
  "as_dict v = (case v of PDict d \<Rightarrow> Inr d | _ \<Rightarrow> Inl AttributeError)"

definition as_str :: "pyval \<Rightarrow> error + string" where
  "as_str v = (case v of PStr s \<Rightarrow> Inr s | _ \<Rightarrow> Inl Unmodelled)"

definition as_int :: "pyval \<Rightarrow> error + int" where
  "as_int v = (case v of PInt i \<Rightarrow> Inr i | _ \<Rightarrow> Inl Unmodelled)"

fun as_str_list :: "pyval list \<Rightarrow> error + string list" where
  "as_str_list [] = Inr []"
| "as_str_list (v # vs) =
     ebind (as_str v) (\<lambda>s. ebind (as_str_list vs) (\<lambda>ss. Inr (s # ss)))"

section \<open>The platform: clock, identifiers, library functions, files\<close>

text \<open>
  \<^verbatim>\<open>datetime\<close> values are instants on an abstract time line. An image is an RGB raster,
  a list of rows of pixels; a file system maps a path to the bytes stored there.
\<close>

type_synonym datetime = nat
type_synonym pixel = "int \<times> int \<times> int"
type_synonym image = "pixel list list"
type_synonym filesystem = "(string \<times> nat list) list"

text \<open>
  Everything the module takes from the Python library or from its environment is a field
  of \<open>platform\<close>: the successive readings of \<^verbatim>\<open>datetime.now()\<close> and \<^verbatim>\<open>uuid.uuid4()\<close>, the
  ISO printer and parser, conversions from strings, Unicode tables, floating-point
  arithmetic (\<open>fmul\<close>, \<open>fadd\<close>, \<open>fdiv\<close> compute on the reals that the floats denote and round
  as the hardware does), and the file and imaging operations, which may fail (\<open>None\<close>
  stands for a raised exception).
\<close>

record platform =
  clock :: "nat \<Rightarrow> datetime"
  uuid4 :: "nat \<Rightarrow> string"
  isoformat :: "datetime \<Rightarrow> string"
  fromisoformat :: "string \<Rightarrow> datetime option"
  float_of_str :: "string \<Rightarrow> real option"
  int_of_str :: "string \<Rightarrow> int option"
  repr :: "pyval \<Rightarrow> string"
  str_upper :: "string \<Rightarrow> string"
  str_lower :: "string \<Rightarrow> string"
  str_capitalize :: "string \<Rightarrow> string"
  unicode_category :: "char \<Rightarrow> string"
  is_space :: "char \<Rightarrow> bool"
  fmul :: "real \<Rightarrow> real \<Rightarrow> real"
  fadd :: "real \<Rightarrow> real \<Rightarrow> real"
  fdiv :: "real \<Rightarrow> real \<Rightarrow> real"
  copy2 :: "filesystem \<Rightarrow> string \<Rightarrow> string \<Rightarrow> filesystem option"
  os_remove :: "filesystem \<Rightarrow> string \<Rightarrow> filesystem option"
  image_open :: "filesystem \<Rightarrow> string \<Rightarrow> image option"
  image_probe :: "filesystem \<Rightarrow> string \<Rightarrow> pyval option"
  image_save :: "filesystem \<Rightarrow> image \<Rightarrow> string \<Rightarrow> pyval \<Rightarrow> filesystem option"
  enhance_brightness :: "real \<Rightarrow> image \<Rightarrow> image"
  enhance_contrast :: "real \<Rightarrow> image \<Rightarrow> image"
  enhance_color :: "real \<Rightarrow> image \<Rightarrow> image"
  gaussian_blur :: "real \<Rightarrow> image \<Rightarrow> image"
  convert_gray :: "image \<Rightarrow> image"
  blend :: "image \<Rightarrow> image \<Rightarrow> real \<Rightarrow> image"
  thumbnail :: "image \<Rightarrow> image"

text \<open>
  The world is what a call can change outside the objects: how many clock readings and
  identifiers have been drawn, and the files.
\<close>

record world =
  ticks :: nat
  draws :: nat
  files :: filesystem

definition now :: "platform \<Rightarrow> world \<Rightarrow> datetime \<times> world" where
  "now P w = (clock P (ticks w), w\<lparr>ticks := Suc (ticks w)\<rparr>)"

definition new_uuid :: "platform \<Rightarrow> world \<Rightarrow> string \<times> world" where
  \<comment> \<open>\<^verbatim>\<open>str(uuid.uuid4())\<close>\<close>
  "new_uuid P w = (uuid4 P (draws w), w\<lparr>draws := Suc (draws w)\<rparr>)"

definition os_path_exists :: "world \<Rightarrow> string \<Rightarrow> bool" where
  "os_path_exists w p = (map_of (files w) p \<noteq> None)"

subsection \<open>The conversions \<^verbatim>\<open>float()\<close>, \<^verbatim>\<open>int()\<close> and \<^verbatim>\<open>str()\<close>\<close>

definition trunc_real :: "real \<Rightarrow> int" where
  \<comment> \<open>\<^verbatim>\<open>int(f)\<close> of a float: towards zero\<close>
  "trunc_real r = (if 0 \<le> r then \<lfloor>r\<rfloor> else \<lceil>r\<rceil>)"

definition py_float :: "platform \<Rightarrow> pyval \<Rightarrow> error + real" where
  "py_float P v = (case v of
       PFloat r \<Rightarrow> Inr r
     | PInt i \<Rightarrow> Inr (of_int i)
     | PBool b \<Rightarrow> Inr (if b then 1 else 0)
     | PStr s \<Rightarrow> (case float_of_str P s of None \<Rightarrow> Inl ValueError | Some r \<Rightarrow> Inr r)
     | _ \<Rightarrow> Inl TypeError)"

definition py_int :: "platform \<Rightarrow> pyval \<Rightarrow> error + int" where
  "py_int P v = (case v of
       PInt i \<Rightarrow> Inr i
     | PFloat r \<Rightarrow> Inr (trunc_real r)
     | PBool b \<Rightarrow> Inr (if b then 1 else 0)
     | PStr s \<Rightarrow> (case int_of_str P s of None \<Rightarrow> Inl ValueError | Some i \<Rightarrow> Inr i)
     | _ \<Rightarrow> Inl TypeError)"

definition py_str :: "platform \<Rightarrow> pyval \<Rightarrow> string" where
  "py_str P v = (case v of PStr s \<Rightarrow> s | _ \<Rightarrow> repr P v)"

section \<open>Elements\<close>

subsection \<open>\<^verbatim>\<open>ElementStyle\<close> and \<^verbatim>\<open>ContentElement\<close>\<close>

text \<open>
  An attribute has a HOL type where the source converts into it (\<^verbatim>\<open>float()\<close>, \<^verbatim>\<open>int()\<close>,
  \<^verbatim>\<open>str()\<close>) or computes with it (identifiers, the type tag, the z-index, paths, times);
  every other attribute holds whatever value was assigned, a \<open>pyval\<close>. The attributes
  \<^verbatim>\<open>id\<close>, \<^verbatim>\<open>type\<close>, \<^verbatim>\<open>x\<close>, \<^verbatim>\<open>y\<close> and \<^verbatim>\<open>text\<close> are the fields \<open>el_id\<close>, \<open>el_type\<close>, \<open>el_x\<close>,
  \<open>el_y\<close> and \<open>el_text\<close>.
\<close>

record element_style =
  color :: pyval
  background_color :: pyval
  border_color :: pyval
  border_width :: pyval
  opacity :: pyval
  rotation :: pyval
  shadow :: pyval
  shadow_color :: pyval
  shadow_blur :: pyval
  shadow_offset_x :: pyval
  shadow_offset_y :: pyval

definition ElementStyle_default :: element_style where
  "ElementStyle_default = \<lparr>
     color = PStr ''#000000'', background_color = PStr ''transparent'',
     border_color = PStr ''transparent'', border_width = PInt 0,
     opacity = PFloat 1, rotation = PFloat 0, shadow = PBool False,
     shadow_color = PStr ''#000000'', shadow_blur = PInt 5,
     shadow_offset_x = PInt 2, shadow_offset_y = PInt 2 \<rparr>"

record content_element =
  el_id :: string
  el_type :: string
  el_x :: real
  el_y :: real
  width :: real
  height :: real
  z_index :: int
  visible :: pyval
  locked :: pyval
  created_at :: datetime
  modified_at :: datetime
  style :: element_style
  animation :: pyval

definition default_animation :: pyval where
  "default_animation = PDict [(''entrance'', PStr ''none''), (''exit'', PStr ''none''),
     (''duration'', PInt 1000), (''delay'', PInt 0)]"

definition ContentElement_init ::
  "platform \<Rightarrow> world \<Rightarrow> string option \<Rightarrow> string \<Rightarrow> real \<Rightarrow> real \<Rightarrow> real \<Rightarrow> real
     \<Rightarrow> content_element \<times> world" where
  \<comment> \<open>\<^verbatim>\<open>element_id or str(uuid.uuid4())\<close>: an absent or empty identifier draws a fresh one\<close>
  "ContentElement_init P w element_id element_type x y wd ht =
     (let (i, w1) = (case element_id of
                       None \<Rightarrow> new_uuid P w
                     | Some e \<Rightarrow> if e = [] then new_uuid P w else (e, w));
          (c, w2) = now P w1;
          (m, w3) = now P w2
      in (\<lparr> el_id = i, el_type = element_type, el_x = x, el_y = y, width = wd, height = ht,
            z_index = 0, visible = PBool True, locked = PBool False,
            created_at = c, modified_at = m,
            style = ElementStyle_default, animation = default_animation \<rparr>, w3))"

definition style_to_dict :: "element_style \<Rightarrow> pydict" where
  "style_to_dict s =
     [(''color'', color s), (''background_color'', background_color s),
      (''border_color'', border_color s), (''border_width'', border_width s),
      (''opacity'', opacity s), (''rotation'', rotation s), (''shadow'', shadow s),
      (''shadow_color'', shadow_color s), (''shadow_blur'', shadow_blur s),
      (''shadow_offset_x'', shadow_offset_x s), (''shadow_offset_y'', shadow_offset_y s)]"

definition ContentElement_to_dict ::
  "platform \<Rightarrow> 'a content_element_scheme \<Rightarrow> pydict" where
  "ContentElement_to_dict P e =
     [(''id'', PStr (el_id e)), (''type'', PStr (el_type e)),
      (''x'', PFloat (el_x e)), (''y'', PFloat (el_y e)),
      (''width'', PFloat (width e)), (''height'', PFloat (height e)),
      (''z_index'', PInt (z_index e)), (''visible'', visible e), (''locked'', locked e),
      (''created_at'', PStr (isoformat P (created_at e))),
      (''modified_at'', PStr (isoformat P (modified_at e))),
      (''style'', PDict (style_to_dict (style e))),
      (''animation'', animation e)]"

definition parse_time :: "platform \<Rightarrow> pyval \<Rightarrow> datetime option" where
  \<comment> \<open>\<^verbatim>\<open>datetime.fromisoformat(v)\<close>; \<open>None\<close> is any exception it raises\<close>
  "parse_time P v = (case v of PStr s \<Rightarrow> fromisoformat P s | _ \<Rightarrow> None)"

definition restore_times ::
  "platform \<Rightarrow> world \<Rightarrow> pydict \<Rightarrow> string \<Rightarrow> string \<Rightarrow> (datetime \<times> datetime) \<times> world" where
  \<comment> \<open>the \<^verbatim>\<open>try\<close>/\<^verbatim>\<open>except\<close> block that restores two times; each default is computed
      before its \<^verbatim>\<open>get\<close>, and the handler assigns one reading of the clock to both\<close>
  "restore_times P w data k1 k2 =
     (let (d1, w1) = now P w in
      case parse_time P (dict_get data k1 (PStr (isoformat P d1))) of
        None \<Rightarrow> (let (n, w2) = now P w1 in ((n, n), w2))
      | Some c \<Rightarrow>
          (let (d2, w2) = now P w1 in
           case parse_time P (dict_get data k2 (PStr (isoformat P d2))) of
             None \<Rightarrow> (let (n, w3) = now P w2 in ((n, n), w3))
           | Some m \<Rightarrow> ((c, m), w2)))"

definition style_from_dict :: "pydict \<Rightarrow> element_style" where
  "style_from_dict style_data = \<lparr>
     color = dict_get style_data ''color'' (PStr ''#000000''),
     background_color = dict_get style_data ''background_color'' (PStr ''transparent''),
     border_color = dict_get style_data ''border_color'' (PStr ''transparent''),
     border_width = dict_get style_data ''border_width'' (PInt 0),
     opacity = dict_get style_data ''opacity'' (PFloat 1),
     rotation = dict_get style_data ''rotation'' (PFloat 0),
     shadow = dict_get style_data ''shadow'' (PBool False),
     shadow_color = dict_get style_data ''shadow_color'' (PStr ''#000000''),
     shadow_blur = dict_get style_data ''shadow_blur'' (PInt 5),
     shadow_offset_x = dict_get style_data ''shadow_offset_x'' (PInt 2),
     shadow_offset_y = dict_get style_data ''shadow_offset_y'' (PInt 2) \<rparr>"

definition ContentElement_from_base_dict ::
  "platform \<Rightarrow> world \<Rightarrow> pydict \<Rightarrow> error + content_element \<times> world" where
  "ContentElement_from_base_dict P w data =
     (let (element, w1) = ContentElement_init P w None ''text'' 0 0 100 50;
          (u, w2) = new_uuid P w1
      in ebind (as_str (dict_get data ''id'' (PStr u))) (\<lambda>i.
         ebind (as_str (dict_get data ''type'' (PStr ''text''))) (\<lambda>t.
         ebind (py_float P (dict_get data ''x'' (PInt 0))) (\<lambda>x.
         ebind (py_float P (dict_get data ''y'' (PInt 0))) (\<lambda>y.
         ebind (py_float P (dict_get data ''width'' (PInt 100))) (\<lambda>wd.
         ebind (py_float P (dict_get data ''height'' (PInt 50))) (\<lambda>ht.
         ebind (as_int (dict_get data ''z_index'' (PInt 0))) (\<lambda>z.
         let ((c, m), w3) = restore_times P w2 data ''created_at'' ''modified_at'' in
         ebind (as_dict (dict_get data ''style'' (PDict []))) (\<lambda>style_data.
         Inr (element\<lparr> el_id := i, el_type := t, el_x := x, el_y := y,
                width := wd, height := ht, z_index := z,
                visible := dict_get data ''visible'' (PBool True),
                locked := dict_get data ''locked'' (PBool False),
                created_at := c, modified_at := m,
                style := style_from_dict style_data,
                animation := dict_get data ''animation'' default_animation \<rparr>, w3))))))))))"

definition update_base ::
  "content_element \<Rightarrow> 'a content_element_scheme \<Rightarrow> 'a content_element_scheme" where
  \<comment> \<open>\<^verbatim>\<open>element.__dict__.update(base_element.__dict__)\<close>: the base object has exactly
      the thirteen attributes of \<^verbatim>\<open>ContentElement\<close>\<close>
  "update_base b e = e\<lparr> el_id := el_id b, el_type := el_type b, el_x := el_x b,
     el_y := el_y b, width := width b, height := height b, z_index := z_index b,
     visible := visible b, locked := locked b, created_at := created_at b,
     modified_at := modified_at b, style := style b, animation := animation b \<rparr>"

subsection \<open>\<^verbatim>\<open>TextElement\<close>\<close>

record text_element = content_element +
  el_text :: string
  font_family :: pyval
  font_size :: int
  font_weight :: pyval
  font_style :: pyval
  text_align :: pyval
  text_decoration :: pyval
  line_height :: pyval
  letter_spacing :: pyval
  word_spacing :: pyval
  max_lines :: pyval
  text_transform :: pyval
  vertical_align :: pyval
  white_space :: pyval
  word_wrap :: pyval
  text_overflow :: pyval

definition TextElement_init ::
  "platform \<Rightarrow> world \<Rightarrow> pyval \<Rightarrow> pyval \<Rightarrow> pyval \<Rightarrow> string option \<Rightarrow> real \<Rightarrow> real \<Rightarrow> real \<Rightarrow> real
     \<Rightarrow> error + text_element \<times> world" where
  \<comment> \<open>the keyword arguments passed on are \<^verbatim>\<open>element_id\<close>, \<^verbatim>\<open>x\<close>, \<^verbatim>\<open>y\<close>, \<^verbatim>\<open>width\<close>, \<^verbatim>\<open>height\<close>;
      when \<^verbatim>\<open>int(font_size)\<close> raises, the identifier and the clock readings already drawn
      are not counted\<close>
  "TextElement_init P w text font_fam font_sz element_id x y wd ht =
     (let (b, w1) = ContentElement_init P w element_id ''text'' x y wd ht in
      ebind (py_int P font_sz) (\<lambda>fs.
      Inr (content_element.extend b (text_element.fields
             (py_str P text) font_fam fs
             (PStr ''normal'') (PStr ''normal'') (PStr ''left'') (PStr ''none'')
             (PFloat (12 / 10)) (PInt 0) (PInt 0) PNone (PStr ''none'')
             (PStr ''top'') (PStr ''normal'') (PBool True) (PStr ''ellipsis'')), w1)))"

definition get_formatted_text :: "platform \<Rightarrow> text_element \<Rightarrow> string" where
  "get_formatted_text P e =
     (if text_transform e = PStr ''uppercase'' then str_upper P (el_text e)
      else if text_transform e = PStr ''lowercase'' then str_lower P (el_text e)
      else if text_transform e = PStr ''capitalize'' then str_capitalize P (el_text e)
      else el_text e)"

definition TextElement_to_dict :: "platform \<Rightarrow> text_element \<Rightarrow> pydict" where
  "TextElement_to_dict P e = dict_update (ContentElement_to_dict P e)
     [(''text'', PStr (el_text e)), (''font_family'', font_family e),
      (''font_size'', PInt (font_size e)), (''font_weight'', font_weight e),
      (''font_style'', font_style e), (''text_align'', text_align e),
      (''text_decoration'', text_decoration e), (''line_height'', line_height e),
      (''letter_spacing'', letter_spacing e), (''word_spacing'', word_spacing e),
      (''max_lines'', max_lines e), (''text_transform'', text_transform e),
      (''vertical_align'', vertical_align e), (''white_space'', white_space e),
      (''word_wrap'', word_wrap e), (''text_overflow'', text_overflow e)]"

definition TextElement_from_dict ::
  "platform \<Rightarrow> world \<Rightarrow> pydict \<Rightarrow> error + text_element \<times> world" where
  "TextElement_from_dict P w data =
     ebind (TextElement_init P w (dict_get data ''text'' (PStr []))
              (dict_get data ''font_family'' (PStr ''Arial''))
              (dict_get data ''font_size'' (PInt 16)) None 0 0 100 50) (\<lambda>(element, w1).
     ebind (ContentElement_from_base_dict P w1 data) (\<lambda>(base_element, w2).
     Inr ((update_base base_element element)\<lparr>
            font_weight := dict_get data ''font_weight'' (PStr ''normal''),
            font_style := dict_get data ''font_style'' (PStr ''normal''),
            text_align := dict_get data ''text_align'' (PStr ''left''),
            text_decoration := dict_get data ''text_decoration'' (PStr ''none''),
            line_height := dict_get data ''line_height'' (PFloat (12 / 10)),
            letter_spacing := dict_get data ''letter_spacing'' (PInt 0),
            word_spacing := dict_get data ''word_spacing'' (PInt 0),
            max_lines := dict_get data ''max_lines'' PNone,
            text_transform := dict_get data ''text_transform'' (PStr ''none''),
            vertical_align := dict_get data ''vertical_align'' (PStr ''top''),
            white_space := dict_get data ''white_space'' (PStr ''normal''),
            word_wrap := dict_get data ''word_wrap'' (PBool True),
            text_overflow := dict_get data ''text_overflow'' (PStr ''ellipsis'') \<rparr>, w2)))"

subsection \<open>\<^verbatim>\<open>ImageElement\<close>\<close>

record image_element = content_element +
  image_path :: string
  original_path :: pyval
  alt_text :: string
  fit_mode :: pyval
  image_quality :: pyval
  preserve_aspect_ratio :: pyval
  filter_effects :: pyval
  crop :: pyval
  image_info :: pyval

definition default_filter_effects :: pyval where
  "default_filter_effects = PDict [(''brightness'', PInt 100), (''contrast'', PInt 100),
     (''saturation'', PInt 100), (''hue'', PInt 0), (''blur'', PInt 0),
     (''grayscale'', PInt 0), (''sepia'', PInt 0), (''invert'', PInt 0)]"

definition default_crop :: pyval where
  "default_crop = PDict [(''x'', PInt 0), (''y'', PInt 0),
     (''width'', PInt 100), (''height'', PInt 100)]"

definition default_image_info :: pyval where
  "default_image_info = PDict [(''format'', PStr []), (''size'', PTuple [PInt 0, PInt 0]),
     (''file_size'', PInt 0), (''color_mode'', PStr []), (''has_transparency'', PBool False)]"

definition ImageElement_init ::
  "platform \<Rightarrow> world \<Rightarrow> string \<Rightarrow> pyval \<Rightarrow> string option \<Rightarrow> real \<Rightarrow> real \<Rightarrow> real \<Rightarrow> real
     \<Rightarrow> image_element \<times> world" where
  "ImageElement_init P w img_path alt element_id x y wd ht =
     (let (b, w1) = ContentElement_init P w element_id ''image'' x y wd ht in
      (content_element.extend b (image_element.fields
         img_path (PStr img_path) (py_str P alt) (PStr ''contain'') (PInt 100) (PBool True)
         default_filter_effects default_crop default_image_info), w1))"

definition ImageElement_to_dict :: "platform \<Rightarrow> image_element \<Rightarrow> pydict" where
  "ImageElement_to_dict P e = dict_update (ContentElement_to_dict P e)
     [(''image_path'', PStr (image_path e)), (''original_path'', original_path e),
      (''alt_text'', PStr (alt_text e)), (''fit_mode'', fit_mode e),
      (''image_quality'', image_quality e),
      (''preserve_aspect_ratio'', preserve_aspect_ratio e),
      (''filter_effects'', filter_effects e), (''crop'', crop e),
      (''image_info'', image_info e)]"

definition ImageElement_from_dict ::
  "platform \<Rightarrow> world \<Rightarrow> pydict \<Rightarrow> error + image_element \<times> world" where
  "ImageElement_from_dict P w data =
     ebind (as_str (dict_get data ''image_path'' (PStr []))) (\<lambda>img_path.
     let (element, w1) = ImageElement_init P w img_path (dict_get data ''alt_text'' (PStr []))
                           None 0 0 100 50 in
     ebind (ContentElement_from_base_dict P w1 data) (\<lambda>(base_element, w2).
     Inr ((update_base base_element element)\<lparr>
            original_path := dict_get data ''original_path'' (PStr []),
            fit_mode := dict_get data ''fit_mode'' (PStr ''contain''),
            image_quality := dict_get data ''image_quality'' (PInt 100),
            preserve_aspect_ratio := dict_get data ''preserve_aspect_ratio'' (PBool True),
            filter_effects := dict_get data ''filter_effects'' (PDict []),
            crop := dict_get data ''crop'' default_crop,
            image_info := dict_get data ''image_info'' (PDict []) \<rparr>, w2)))"

subsection \<open>\<^verbatim>\<open>IconElement\<close>\<close>

record icon_element = content_element +
  icon_code :: string
  icon_type :: pyval
  icon_family :: pyval
  icon_size :: pyval
  icon_color :: pyval
  icon_library :: pyval
  icon_variant :: pyval
  custom_svg_path :: pyval
  custom_image_path :: pyval

definition IconElement_init ::
  "platform \<Rightarrow> world \<Rightarrow> pyval \<Rightarrow> pyval \<Rightarrow> string option \<Rightarrow> real \<Rightarrow> real \<Rightarrow> real \<Rightarrow> real
     \<Rightarrow> icon_element \<times> world" where
  "IconElement_init P w code ityp element_id x y wd ht =
     (let (b, w1) = ContentElement_init P w element_id ''icon'' x y wd ht in
      (content_element.extend b (icon_element.fields
         (py_str P code) ityp (PStr ''Arial'') (PInt 24) (PStr ''#000000'') (PStr [])
         (PStr ''regular'') (PStr []) (PStr [])), w1))"

definition IconElement_to_dict :: "platform \<Rightarrow> icon_element \<Rightarrow> pydict" where
  "IconElement_to_dict P e = dict_update (ContentElement_to_dict P e)
     [(''icon_code'', PStr (icon_code e)), (''icon_type'', icon_type e),
      (''icon_family'', icon_family e), (''icon_size'', icon_size e),
      (''icon_color'', icon_color e), (''icon_library'', icon_library e),
      (''icon_variant'', icon_variant e), (''custom_svg_path'', custom_svg_path e),
      (''custom_image_path'', custom_image_path e)]"

definition IconElement_from_dict ::
  "platform \<Rightarrow> world \<Rightarrow> pydict \<Rightarrow> error + icon_element \<times> world" where
  "IconElement_from_dict P w data =
     (let (element, w1) = IconElement_init P w (dict_get data ''icon_code'' (PStr []))
                            (dict_get data ''icon_type'' (PStr ''unicode'')) None 0 0 100 50 in
      ebind (ContentElement_from_base_dict P w1 data) (\<lambda>(base_element, w2).
      Inr ((update_base base_element element)\<lparr>
             icon_family := dict_get data ''icon_family'' (PStr ''Arial''),
             icon_size := dict_get data ''icon_size'' (PInt 24),
             icon_color := dict_get data ''icon_color'' (PStr ''#000000''),
             icon_library := dict_get data ''icon_library'' (PStr []),
             icon_variant := dict_get data ''icon_variant'' (PStr ''regular''),
             custom_svg_path := dict_get data ''custom_svg_path'' (PStr []),
             custom_image_path := dict_get data ''custom_image_path'' (PStr []) \<rparr>, w2)))"

subsection \<open>\<^verbatim>\<open>SymbolElement\<close>\<close>

record symbol_element = content_element +
  symbol :: string
  symbol_type :: pyval
  symbol_size :: pyval
  symbol_unicode :: pyval
  symbol_name :: pyval
  symbol_category :: pyval
  math_notation :: pyval
  latex_code :: pyval

definition SymbolElement_init ::
  "platform \<Rightarrow> world \<Rightarrow> pyval \<Rightarrow> pyval \<Rightarrow> string option \<Rightarrow> real \<Rightarrow> real \<Rightarrow> real \<Rightarrow> real
     \<Rightarrow> symbol_element \<times> world" where
  "SymbolElement_init P w symb styp element_id x y wd ht =
     (let (b, w1) = ContentElement_init P w element_id ''symbol'' x y wd ht in
      (content_element.extend b (symbol_element.fields
         (py_str P symb) styp (PInt 24) (PStr []) (PStr []) (PStr [])
         (PStr []) (PStr [])), w1))"

function to_digits :: "nat \<Rightarrow> nat \<Rightarrow> nat list" where
  "to_digits b n = (if n < b \<or> b < 2 then [n] else to_digits b (n div b) @ [n mod b])"
  by pat_completeness auto
termination
  by (relation "measure snd") auto

definition digit_char :: "nat \<Rightarrow> char" where
  "digit_char d = (if d < 16 then ''0123456789ABCDEF'' ! d else CHR ''?'')"

definition str_of_nat :: "nat \<Rightarrow> string" where
  \<comment> \<open>\<^verbatim>\<open>str(n)\<close>\<close>
  "str_of_nat n = map digit_char (to_digits 10 n)"

definition hex04 :: "nat \<Rightarrow> string" where
  \<comment> \<open>the format \<^verbatim>\<open>{n:04X}\<close>\<close>
  "hex04 n = (let h = map digit_char (to_digits 16 n)
              in replicate (4 - length h) CHR ''0'' @ h)"

definition get_unicode_info :: "symbol_element \<Rightarrow> pydict" where
  "get_unicode_info e =
     (case symbol e of
        [] \<Rightarrow> []
      | c # _ \<Rightarrow>
          (let unicode_code = (of_char c :: nat) in
           [(''decimal'', PStr (str_of_nat unicode_code)),
            (''hex'', PStr (''U+'' @ hex04 unicode_code)),
            (''html'', PStr (''&#'' @ str_of_nat unicode_code @ '';'')),
            (''css'', PStr (CHR 0x5C # hex04 unicode_code))]))"

definition SymbolElement_to_dict :: "platform \<Rightarrow> symbol_element \<Rightarrow> pydict" where
  "SymbolElement_to_dict P e = dict_update (ContentElement_to_dict P e)
     [(''symbol'', PStr (symbol e)), (''symbol_type'', symbol_type e),
      (''symbol_size'', symbol_size e), (''symbol_unicode'', symbol_unicode e),
      (''symbol_name'', symbol_name e), (''symbol_category'', symbol_category e),
      (''math_notation'', math_notation e), (''latex_code'', latex_code e),
      (''unicode_info'', PDict (get_unicode_info e))]"

definition SymbolElement_from_dict ::
  "platform \<Rightarrow> world \<Rightarrow> pydict \<Rightarrow> error + symbol_element \<times> world" where
  "SymbolElement_from_dict P w data =
     (let (element, w1) = SymbolElement_init P w (dict_get data ''symbol'' (PStr []))
                            (dict_get data ''symbol_type'' (PStr ''emoji'')) None 0 0 100 50 in
      ebind (ContentElement_from_base_dict P w1 data) (\<lambda>(base_element, w2).
      Inr ((update_base base_element element)\<lparr>
             symbol_size := dict_get data ''symbol_size'' (PInt 24),
             symbol_unicode := dict_get data ''symbol_unicode'' (PStr []),
             symbol_name := dict_get data ''symbol_name'' (PStr []),
             symbol_category := dict_get data ''symbol_category'' (PStr []),
             math_notation := dict_get data ''math_notation'' (PStr []),
             latex_code := dict_get data ''latex_code'' (PStr []) \<rparr>, w2)))"

subsection \<open>Elements of any class\<close>

datatype element =
    TextElement text_element
  | ImageElement image_element
  | IconElement icon_element
  | SymbolElement symbol_element

fun elem_type :: "element \<Rightarrow> string" where
  "elem_type (TextElement e) = el_type e"
| "elem_type (ImageElement e) = el_type e"
| "elem_type (IconElement e) = el_type e"
| "elem_type (SymbolElement e) = el_type e"

fun elem_id :: "element \<Rightarrow> string" where
  "elem_id (TextElement e) = el_id e"
| "elem_id (ImageElement e) = el_id e"
| "elem_id (IconElement e) = el_id e"
| "elem_id (SymbolElement e) = el_id e"

fun elem_z_index :: "element \<Rightarrow> int" where
  "elem_z_index (TextElement e) = z_index e"
| "elem_z_index (ImageElement e) = z_index e"
| "elem_z_index (IconElement e) = z_index e"
| "elem_z_index (SymbolElement e) = z_index e"

fun set_z_index :: "int \<Rightarrow> element \<Rightarrow> element" where
  "set_z_index z (TextElement e) = TextElement (e\<lparr>z_index := z\<rparr>)"
| "set_z_index z (ImageElement e) = ImageElement (e\<lparr>z_index := z\<rparr>)"
| "set_z_index z (IconElement e) = IconElement (e\<lparr>z_index := z\<rparr>)"
| "set_z_index z (SymbolElement e) = SymbolElement (e\<lparr>z_index := z\<rparr>)"

fun set_modified_at :: "datetime \<Rightarrow> element \<Rightarrow> element" where
  "set_modified_at t (TextElement e) = TextElement (e\<lparr>modified_at := t\<rparr>)"
| "set_modified_at t (ImageElement e) = ImageElement (e\<lparr>modified_at := t\<rparr>)"
| "set_modified_at t (IconElement e) = IconElement (e\<lparr>modified_at := t\<rparr>)"
| "set_modified_at t (SymbolElement e) = SymbolElement (e\<lparr>modified_at := t\<rparr>)"



fun to_dict :: "platform \<Rightarrow> element \<Rightarrow> pydict" where
  \<comment> \<open>\<^verbatim>\<open>element.to_dict()\<close>, dispatched on the class of the object\<close>
  "to_dict P (TextElement e) = TextElement_to_dict P e"
| "to_dict P (ImageElement e) = ImageElement_to_dict P e"
| "to_dict P (IconElement e) = IconElement_to_dict P e"
| "to_dict P (SymbolElement e) = SymbolElement_to_dict P e"


section \<open>Paths\<close>

text \<open>The functions of \<^verbatim>\<open>os.path\<close> that the module calls, on POSIX paths.\<close>

definition SUPPORTED_IMAGE_FORMATS :: "string list" where
  "SUPPORTED_IMAGE_FORMATS =
     [''.jpg'', ''.jpeg'', ''.png'', ''.gif'', ''.bmp'', ''.webp'', ''.svg'']"

definition basename :: "string \<Rightarrow> string" where
  "basename p = rev (takeWhile (\<lambda>c. c \<noteq> CHR ''/'') (rev p))"

definition splitext :: "string \<Rightarrow> string \<times> string" where
  \<comment> \<open>the extension starts at the last dot of the last component, unless only dots
      precede it there\<close>
  "splitext p =
     (let b = basename p;
          d = take (length p - length b) p;
          e = rev (takeWhile (\<lambda>c. c \<noteq> CHR ''.'') (rev b));
          stem = take (length b - length e - 1) b
      in if CHR ''.'' \<in> set b \<and> list_ex (\<lambda>c. c \<noteq> CHR ''.'') stem
         then (d @ stem, CHR ''.'' # e)
         else (p, []))"

definition join2 :: "string \<Rightarrow> string \<Rightarrow> string" where
  "join2 a b =
     (if b \<noteq> [] \<and> hd b = CHR ''/'' then b
      else if a = [] \<or> last a = CHR ''/'' then a @ b
      else a @ ''/'' @ b)"

definition os_path_join :: "string \<Rightarrow> string list \<Rightarrow> string" where
  "os_path_join a ps = foldl join2 a ps"

definition str_of_int :: "int \<Rightarrow> string" where
  "str_of_int i = (if i < 0 then CHR ''-'' # str_of_nat (nat (- i)) else str_of_nat (nat i))"

section \<open>The image filter pipeline\<close>

datatype number = NInt int | NFloat real

definition num_of :: "pyval \<Rightarrow> number option" where
  \<comment> \<open>the values Python computes with as numbers; \<^verbatim>\<open>bool\<close> is a subclass of \<^verbatim>\<open>int\<close>\<close>
  "num_of v = (case v of
       PInt i \<Rightarrow> Some (NInt i)
     | PBool b \<Rightarrow> Some (NInt (if b then 1 else 0))
     | PFloat r \<Rightarrow> Some (NFloat r)
     | _ \<Rightarrow> None)"

fun num_real :: "number \<Rightarrow> real" where
  "num_real (NInt i) = of_int i"
| "num_real (NFloat r) = r"

definition subscript :: "pyval \<Rightarrow> string \<Rightarrow> pyval option" where
  \<comment> \<open>\<^verbatim>\<open>v[k]\<close> with a string key; \<open>None\<close> is the \<^verbatim>\<open>KeyError\<close> or \<^verbatim>\<open>TypeError\<close> raised\<close>
  "subscript v k = (case v of PDict d \<Rightarrow> map_of d k | _ \<Rightarrow> None)"

definition weighted :: "platform \<Rightarrow> real \<Rightarrow> real \<Rightarrow> real \<Rightarrow> pixel \<Rightarrow> int" where
  \<comment> \<open>\<^verbatim>\<open>int(a * r + b * g + c * b)\<close> in floating point, evaluated left to right\<close>
  "weighted P a b c px = (case px of (r, g, bl) \<Rightarrow>
     trunc_real (fadd P (fadd P (fmul P a (of_int r)) (fmul P b (of_int g)))
                        (fmul P c (of_int bl))))"

definition sepia_matrix :: "platform \<Rightarrow> pixel \<Rightarrow> pixel" where
  \<comment> \<open>\<^verbatim>\<open>tr\<close>, \<^verbatim>\<open>tg\<close>, \<^verbatim>\<open>tb\<close> after \<^verbatim>\<open>min(255, _)\<close>\<close>
  "sepia_matrix P px =
     (min 255 (weighted P (393 / 1000) (769 / 1000) (189 / 1000) px),
      min 255 (weighted P (349 / 1000) (686 / 1000) (168 / 1000) px),
      min 255 (weighted P (272 / 1000) (534 / 1000) (131 / 1000) px))"

definition mix :: "platform \<Rightarrow> number \<Rightarrow> int \<Rightarrow> int \<Rightarrow> int" where
  \<comment> \<open>\<^verbatim>\<open>int(c + (tc - c) * intensity / 100)\<close>: the product is an integer product when
      the intensity is an \<^verbatim>\<open>int\<close>, and \<^verbatim>\<open>/\<close> is true division\<close>
  "mix P intensity c tc =
     trunc_real (fadd P (of_int c)
       (fdiv P (case intensity of
                  NInt i \<Rightarrow> of_int ((tc - c) * i)
                | NFloat f \<Rightarrow> fmul P (of_int (tc - c)) f) 100))"

definition sepia_pixel :: "platform \<Rightarrow> number \<Rightarrow> pixel \<Rightarrow> pixel" where
  \<comment> \<open>the body of the two loops: the triple assigned to \<^verbatim>\<open>pixels[px, py]\<close>\<close>
  "sepia_pixel P intensity px = (case px of (r, g, b) \<Rightarrow>
     (case sepia_matrix P px of (tr, tg, tb) \<Rightarrow>
        (mix P intensity r tr, mix P intensity g tg, mix P intensity b tb)))"

definition apply_sepia :: "platform \<Rightarrow> image \<Rightarrow> number \<Rightarrow> image" where
  \<comment> \<open>\<^verbatim>\<open>_apply_sepia\<close>: every pixel is read once, before it is written, so the loops
      are a map over the rows\<close>
  "apply_sepia P img intensity = map (map (sepia_pixel P intensity)) img"

definition get_processed_path :: "image_element \<Rightarrow> int \<Rightarrow> string" where
  "get_processed_path e sid =
     (if image_path e = [] then []
      else (case splitext (basename (image_path e)) of (filename, ext) \<Rightarrow>
        os_path_join ''content''
          [''slide_'' @ str_of_int sid, ''images'', ''processed'',
           filename @ ''_processed_'' @ take 8 (el_id e) @ ext]))"

definition scale_stage ::
  "platform \<Rightarrow> (real \<Rightarrow> image \<Rightarrow> image) \<Rightarrow> pyval \<Rightarrow> string \<Rightarrow> image \<Rightarrow> image option" where
  \<comment> \<open>\<^verbatim>\<open>if fe[k] != 100: img = Enhancer(img).enhance(fe[k] / 100)\<close>; a value that is
      not a number differs from 100 and then cannot be divided\<close>
  "scale_stage P enhance fe k img =
     (case subscript fe k of
        None \<Rightarrow> None
      | Some v \<Rightarrow>
          (case num_of v of
             None \<Rightarrow> None
           | Some n \<Rightarrow> if num_real n \<noteq> 100 then Some (enhance (fdiv P (num_real n) 100) img)
                       else Some img))"

definition positive_stage ::
  "pyval \<Rightarrow> string \<Rightarrow> (number \<Rightarrow> image \<Rightarrow> image) \<Rightarrow> image \<Rightarrow> image option" where
  \<comment> \<open>\<^verbatim>\<open>if fe[k] > 0: img = f(fe[k], img)\<close>; comparing a value that is not a number
      with 0 raises\<close>
  "positive_stage fe k f img =
     (case subscript fe k of
        None \<Rightarrow> None
      | Some v \<Rightarrow>
          (case num_of v of
             None \<Rightarrow> None
           | Some n \<Rightarrow> if 0 < num_real n then Some (f n img) else Some img))"

definition filter_stages :: "platform \<Rightarrow> pyval \<Rightarrow> image \<Rightarrow> image option" where
  \<comment> \<open>the body of the \<^verbatim>\<open>with\<close> block of \<^verbatim>\<open>apply_filters\<close> up to the save\<close>
  "filter_stages P fe img =
     Option.bind (scale_stage P (enhance_brightness P) fe ''brightness'' img) (\<lambda>i1.
     Option.bind (scale_stage P (enhance_contrast P) fe ''contrast'' i1) (\<lambda>i2.
     Option.bind (scale_stage P (enhance_color P) fe ''saturation'' i2) (\<lambda>i3.
     Option.bind (positive_stage fe ''blur'' (\<lambda>n. gaussian_blur P (num_real n)) i3) (\<lambda>i4.
     Option.bind (positive_stage fe ''sepia'' (\<lambda>n i. apply_sepia P i n) i4) (\<lambda>i5.
     positive_stage fe ''grayscale''
       (\<lambda>n i. blend P i (convert_gray P i) (fdiv P (num_real n) 100)) i5)))))"

definition apply_filters :: "platform \<Rightarrow> world \<Rightarrow> image_element \<Rightarrow> int \<Rightarrow> bool \<times> world" where
  \<comment> \<open>every exception is caught and gives \<^verbatim>\<open>False\<close>; \<open>image_save\<close> stands for
      \<^verbatim>\<open>os.makedirs\<close> followed by \<^verbatim>\<open>processed_img.save\<close>\<close>
  "apply_filters P w e sid =
     (if \<not> os_path_exists w (image_path e) then (False, w)
      else (case image_open P (files w) (image_path e) of
        None \<Rightarrow> (False, w)
      | Some img \<Rightarrow>
          (case filter_stages P (filter_effects e) img of
             None \<Rightarrow> (False, w)
           | Some processed_img \<Rightarrow>
               (case image_save P (files w) processed_img (get_processed_path e sid)
                       (image_quality e) of
                  None \<Rightarrow> (False, w)
                | Some fs \<Rightarrow> (True, w\<lparr>files := fs\<rparr>)))))"

section \<open>Slides\<close>

text \<open>
  \<^verbatim>\<open>SlideData.elements\<close> is a dictionary: an association list in insertion order, written
  with \<open>AList.update\<close> (a present key keeps its place) and \<open>AList.delete\<close>. The attributes
  \<^verbatim>\<open>background_color\<close> and \<^verbatim>\<open>created_at\<close> are the fields \<open>sl_background_color\<close> and
  \<open>sl_created_at\<close>. An entry of \<^verbatim>\<open>change_history\<close> is the dictionary the source builds.
\<close>

record slide_data =
  slide_id :: int
  title :: string
  sl_background_color :: pyval
  background_image :: pyval
  background_gradient :: pyval
  last_modified :: datetime
  version :: int
  sl_created_at :: datetime
  elements :: "(string \<times> element) list"
  element_order :: "string list"
  config :: pyval
  change_history :: "pyval list"

definition default_config :: pyval where
  "default_config = PDict [(''width'', PInt 1920), (''height'', PInt 1080),
     (''animation_in'', PStr ''none''), (''animation_out'', PStr ''none''),
     (''duration'', PInt 5000), (''auto_advance'', PBool False),
     (''transition'', PStr ''none''), (''background_music'', PNone), (''notes'', PStr [])]"

definition SlideData_init ::
  "platform \<Rightarrow> world \<Rightarrow> int \<Rightarrow> string \<Rightarrow> pyval \<Rightarrow> slide_data \<times> world" where
  "SlideData_init P w sid ttl bg =
     (let (lm, w1) = now P w;
          (c, w2) = now P w1
      in (\<lparr> slide_id = sid, title = ttl, sl_background_color = bg,
            background_image = PNone, background_gradient = PNone,
            last_modified = lm, version = 1, sl_created_at = c,
            elements = [], element_order = [],
            config = default_config, change_history = [] \<rparr>, w2))"

definition add_to_history ::
  "platform \<Rightarrow> world \<Rightarrow> slide_data \<Rightarrow> string \<Rightarrow> string \<Rightarrow> pyval \<Rightarrow> slide_data \<times> world" where
  \<comment> \<open>\<^verbatim>\<open>_add_to_history\<close>; \<^verbatim>\<open>h[-100:]\<close> keeps the last hundred entries\<close>
  "add_to_history P w s action element_id data =
     (let (t, w1) = now P w;
          h = change_history s @
                [PDict [(''timestamp'', PStr (isoformat P t)), (''action'', PStr action),
                        (''element_id'', PStr element_id), (''data'', data),
                        (''version'', PInt (version s))]]
      in (s\<lparr>change_history := (if 100 < length h then drop (length h - 100) h else h)\<rparr>, w1))"

definition update_modified :: "platform \<Rightarrow> world \<Rightarrow> slide_data \<Rightarrow> slide_data \<times> world" where
  \<comment> \<open>\<^verbatim>\<open>_update_modified\<close>\<close>
  "update_modified P w s =
     (let (t, w1) = now P w in (s\<lparr>last_modified := t, version := version s + 1\<rparr>, w1))"

subsection \<open>Keyword options\<close>

text \<open>
  \<^verbatim>\<open>**options\<close> is the dictionary of the extra keyword arguments. The constructors accept
  the keywords of their own signature and \<^verbatim>\<open>element_id\<close>; any other keyword, and one the
  method passes itself, raises \<^verbatim>\<open>TypeError\<close> before the slide is touched.
\<close>

definition check_keywords :: "string list \<Rightarrow> pydict \<Rightarrow> error + unit" where
  "check_keywords allowed options =
     (if list_all (\<lambda>(k, _). k \<in> set allowed) options then Inr () else Inl TypeError)"

fun py_truthy :: "pyval \<Rightarrow> bool" where
  "py_truthy PNone = False"
| "py_truthy (PBool b) = b"
| "py_truthy (PInt i) = (i \<noteq> 0)"
| "py_truthy (PFloat r) = (r \<noteq> 0)"
| "py_truthy (PStr s) = (s \<noteq> [])"
| "py_truthy (PList xs) = (xs \<noteq> [])"
| "py_truthy (PTuple xs) = (xs \<noteq> [])"
| "py_truthy (PDict d) = (d \<noteq> [])"

definition option_id :: "pydict \<Rightarrow> error + string option" where
  \<comment> \<open>the \<^verbatim>\<open>element_id\<close> keyword as \<^verbatim>\<open>element_id or str(uuid.uuid4())\<close> reads it: a
      false value counts as absent; a true value that is no string would become the
      identifier\<close>
  "option_id options = (case map_of options ''element_id'' of
       None \<Rightarrow> Inr None
     | Some (PStr i) \<Rightarrow> Inr (Some i)
     | Some v \<Rightarrow> if py_truthy v then Inl Unmodelled else Inr None)"

datatype retval =
    RetNone
  | RetBool bool
  | RetStr string
  | RetDict pydict
  | RetElems "(string \<times> element) list"

type_synonym outcome = "error + retval"

subsection \<open>Adding elements\<close>

definition register_element ::
  "platform \<Rightarrow> world \<Rightarrow> slide_data \<Rightarrow> element \<Rightarrow> pyval \<Rightarrow> slide_data \<times> world" where
  \<comment> \<open>the four statements every \<^verbatim>\<open>add_*_element\<close> runs once the element is built\<close>
  "register_element P w s element data =
     (let s1 = s\<lparr> elements := AList.update (elem_id element) element (elements s),
                  element_order := element_order s @ [elem_id element] \<rparr>;
          (s2, w2) = add_to_history P w s1 ''add_element'' (elem_id element) data
      in update_modified P w2 s2)"

definition add_text_element ::
  "platform \<Rightarrow> world \<Rightarrow> slide_data \<Rightarrow> string \<Rightarrow> real \<Rightarrow> real \<Rightarrow> real \<Rightarrow> real \<Rightarrow> pydict
     \<Rightarrow> outcome \<times> slide_data \<times> world" where
  "add_text_element P w s text x y wd ht options =
     (case ebind (check_keywords [''font_family'', ''font_size'', ''element_id''] options) (\<lambda>_.
           ebind (option_id options) (\<lambda>eid.
           TextElement_init P w (PStr text) (dict_get options ''font_family'' (PStr ''Arial''))
             (dict_get options ''font_size'' (PInt 16)) eid x y wd ht)) of
        Inl err \<Rightarrow> (Inl err, s, w)
      | Inr (element, w1) \<Rightarrow>
          (let (s3, w3) = register_element P w1 s (TextElement element)
                            (PDict [(''type'', PStr ''text''), (''text'', PStr text)])
           in (Inr (RetStr (el_id element)), s3, w3)))"

definition os_path_relpath :: "string \<Rightarrow> string \<Rightarrow> string" where
  \<comment> \<open>\<^verbatim>\<open>os.path.relpath(p, start)\<close> for a normalised \<open>p\<close> below the directory \<open>start\<close>,
      its only use here\<close>
  "os_path_relpath p start =
     (if take (length start + 1) p = start @ ''/'' then drop (length start + 1) p else p)"

definition copy_image_to_slide_folder ::
  "platform \<Rightarrow> world \<Rightarrow> slide_data \<Rightarrow> string \<Rightarrow> string option \<times> world" where
  \<comment> \<open>\<^verbatim>\<open>_copy_image_to_slide_folder\<close>; \<open>copy2\<close> stands for \<^verbatim>\<open>os.makedirs\<close> followed by
      \<^verbatim>\<open>shutil.copy2\<close>, and an exception gives \<^verbatim>\<open>None\<close>\<close>
  "copy_image_to_slide_folder P w s img_path =
     (let file_ext = str_lower P (snd (splitext img_path)) in
      if file_ext \<in> set SUPPORTED_IMAGE_FORMATS then
        (let slide_dir = os_path_join ''content''
                           [''slide_'' @ str_of_int (slide_id s), ''images'', ''original''];
             (u, w1) = new_uuid P w;
             dest_path = os_path_join slide_dir [u @ ''_'' @ basename img_path]
         in case copy2 P (files w1) img_path dest_path of
              None \<Rightarrow> (None, w1)
            | Some fs \<Rightarrow> (Some (os_path_relpath dest_path ''content''), w1\<lparr>files := fs\<rparr>))
      else (None, w))"

definition get_image_info :: "platform \<Rightarrow> world \<Rightarrow> string \<Rightarrow> pyval" where
  \<comment> \<open>\<^verbatim>\<open>_get_image_info\<close>: the probed dictionary, or \<^verbatim>\<open>{}\<close> on any exception\<close>
  "get_image_info P w img_path =
     (case image_probe P (files w) img_path of None \<Rightarrow> PDict [] | Some info \<Rightarrow> info)"

definition add_image_element ::
  "platform \<Rightarrow> world \<Rightarrow> slide_data \<Rightarrow> string \<Rightarrow> real \<Rightarrow> real \<Rightarrow> real \<Rightarrow> real \<Rightarrow> pydict
     \<Rightarrow> outcome \<times> slide_data \<times> world" where
  "add_image_element P w s img_path x y wd ht options =
     (if os_path_exists w img_path then
        (case copy_image_to_slide_folder P w s img_path of
           (None, w1) \<Rightarrow> (Inr RetNone, s, w1)
         | (Some copied_path, w1) \<Rightarrow>
             if copied_path = [] then (Inr RetNone, s, w1)
             else
               (case ebind (check_keywords [''alt_text'', ''element_id''] options) (\<lambda>_.
                     ebind (option_id options) (\<lambda>eid.
                     Inr (ImageElement_init P w1 copied_path
                            (dict_get options ''alt_text'' (PStr [])) eid x y wd ht))) of
                  Inl err \<Rightarrow> (Inl err, s, w1)
                | Inr (element0, w2) \<Rightarrow>
                    (let element = element0\<lparr> original_path := PStr img_path,
                                            image_info := get_image_info P w2 img_path \<rparr>;
                         (s3, w3) = register_element P w2 s (ImageElement element)
                                      (PDict [(''type'', PStr ''image''), (''path'', PStr img_path)]);
                         (ok, w4) = apply_filters P w3 element (slide_id s3)
                     in (Inr (RetStr (el_id element)), s3, w4))))
      else (Inr RetNone, s, w))"

definition add_icon_element ::
  "platform \<Rightarrow> world \<Rightarrow> slide_data \<Rightarrow> string \<Rightarrow> real \<Rightarrow> real \<Rightarrow> int \<Rightarrow> pydict
     \<Rightarrow> outcome \<times> slide_data \<times> world" where
  "add_icon_element P w s code x y sz options =
     (case ebind (check_keywords [''icon_type'', ''element_id''] options) (\<lambda>_.
           ebind (option_id options) (\<lambda>eid.
           Inr (IconElement_init P w (PStr code) (dict_get options ''icon_type'' (PStr ''unicode''))
                  eid x y (of_int sz) (of_int sz)))) of
        Inl err \<Rightarrow> (Inl err, s, w)
      | Inr (element0, w1) \<Rightarrow>
          (let element = element0\<lparr>icon_size := PInt sz\<rparr>;
               (s3, w3) = register_element P w1 s (IconElement element)
                            (PDict [(''type'', PStr ''icon''), (''code'', PStr code)])
           in (Inr (RetStr (el_id element)), s3, w3)))"

definition is_emoji :: "platform \<Rightarrow> string \<Rightarrow> bool" where
  "is_emoji P text = list_ex (\<lambda>c. unicode_category P c = ''So'') text"

definition is_mathematical_symbol :: "string \<Rightarrow> bool" where
  "is_mathematical_symbol text =
     list_ex (\<lambda>c. list_ex (\<lambda>(start, end). start \<le> (of_char c :: nat) \<and> of_char c \<le> end)
                    [(0x2200 :: nat, 0x22FF :: nat), (0x2190, 0x21FF), (0x27C0, 0x27EF), (0x2980, 0x29FF)])
             text"

definition add_symbol_element ::
  "platform \<Rightarrow> world \<Rightarrow> slide_data \<Rightarrow> string \<Rightarrow> real \<Rightarrow> real \<Rightarrow> int \<Rightarrow> pydict
     \<Rightarrow> outcome \<times> slide_data \<times> world" where
  "add_symbol_element P w s symb x y sz options =
     (case ebind (check_keywords [''symbol_type'', ''element_id''] options) (\<lambda>_.
           ebind (option_id options) (\<lambda>eid.
           Inr (SymbolElement_init P w (PStr symb) (dict_get options ''symbol_type'' (PStr ''emoji''))
                  eid x y (of_int sz) (of_int sz)))) of
        Inl err \<Rightarrow> (Inl err, s, w)
      | Inr (element0, w1) \<Rightarrow>
          (let element1 = element0\<lparr>symbol_size := PInt sz\<rparr>;
               element = (if is_emoji P symb then element1\<lparr>symbol_type := PStr ''emoji''\<rparr>
                          else if is_mathematical_symbol symb
                               then element1\<lparr>symbol_type := PStr ''mathematical''\<rparr>
                          else element1);
               (s3, w3) = register_element P w1 s (SymbolElement element)
                            (PDict [(''type'', PStr ''symbol''), (''symbol'', PStr symb)])
           in (Inr (RetStr (el_id element)), s3, w3)))"

subsection \<open>Removing an element\<close>

definition get_thumbnail_path :: "slide_data \<Rightarrow> image_element \<Rightarrow> string" where
  "get_thumbnail_path s e =
     os_path_join ''content''
       [''slide_'' @ str_of_int (slide_id s), ''images'', ''thumbnails'',
        ''thumb_'' @ take 8 (el_id e) @ ''.jpg'']"

definition remove_if_exists :: "platform \<Rightarrow> world \<Rightarrow> string \<Rightarrow> world option" where
  \<comment> \<open>\<^verbatim>\<open>if os.path.exists(p): os.remove(p)\<close>; \<open>None\<close> when \<^verbatim>\<open>os.remove\<close> raises\<close>
  "remove_if_exists P w p =
     (if os_path_exists w p
      then (case os_remove P (files w) p of None \<Rightarrow> None | Some fs \<Rightarrow> Some (w\<lparr>files := fs\<rparr>))
      else Some w)"

definition remove_image_files :: "platform \<Rightarrow> world \<Rightarrow> slide_data \<Rightarrow> image_element \<Rightarrow> world" where
  \<comment> \<open>\<^verbatim>\<open>_remove_image_files\<close>: the first exception ends the block and is logged\<close>
  "remove_image_files P w s e =
     (case (if image_path e \<noteq> []
            then remove_if_exists P w (os_path_join ''content'' [image_path e])
            else Some w) of
        None \<Rightarrow> w
      | Some w1 \<Rightarrow>
          (case remove_if_exists P w1 (get_processed_path e (slide_id s)) of
             None \<Rightarrow> w1
           | Some w2 \<Rightarrow>
               (case remove_if_exists P w2 (get_thumbnail_path s e) of
                  None \<Rightarrow> w2
                | Some w3 \<Rightarrow> w3)))"

definition remove_element ::
  "platform \<Rightarrow> world \<Rightarrow> slide_data \<Rightarrow> string \<Rightarrow> outcome \<times> slide_data \<times> world" where
  \<comment> \<open>only an \<^verbatim>\<open>ImageElement\<close> has the attribute \<^verbatim>\<open>image_path\<close>; \<^verbatim>\<open>list.remove\<close> takes
      out the first occurrence\<close>
  "remove_element P w s element_id =
     (case map_of (elements s) element_id of
        None \<Rightarrow> (Inr (RetBool False), s, w)
      | Some element \<Rightarrow>
          (let (s1, w1) = add_to_history P w s ''remove_element'' element_id
                            (PDict (to_dict P element));
               w2 = (case element of
                       ImageElement ie \<Rightarrow>
                         if el_type ie = ''image'' then remove_image_files P w1 s1 ie else w1
                     | _ \<Rightarrow> w1);
               s2 = s1\<lparr> elements := AList.delete element_id (elements s1),
                        element_order := remove1 element_id (element_order s1) \<rparr>;
               (s3, w3) = update_modified P w2 s2
           in (Inr (RetBool True), s3, w3)))"

subsection \<open>Updating and reordering\<close>

text \<open>
  \<^verbatim>\<open>update_element\<close> assigns attributes by name with the built-ins \<^verbatim>\<open>hasattr\<close> and
  \<^verbatim>\<open>setattr\<close>. What they do to an element is a parameter of the model.
\<close>

record reflection =
  hasattr :: "element \<Rightarrow> string \<Rightarrow> bool"
  setattr :: "element \<Rightarrow> string \<Rightarrow> pyval \<Rightarrow> element"

definition record_update ::
  "platform \<Rightarrow> world \<Rightarrow> slide_data \<Rightarrow> string \<Rightarrow> pydict \<Rightarrow> pydict
     \<Rightarrow> outcome \<times> slide_data \<times> world" where
  \<comment> \<open>the end of \<^verbatim>\<open>update_element\<close>: history entry, version, \<^verbatim>\<open>return True\<close>\<close>
  "record_update P w s element_id old_data updates =
     (let (s2, w2) = add_to_history P w s ''update_element'' element_id
                       (PDict [(''old'', PDict old_data), (''new'', PDict updates)]);
          (s3, w3) = update_modified P w2 s2
      in (Inr (RetBool True), s3, w3))"

definition update_element ::
  "platform \<Rightarrow> reflection \<Rightarrow> world \<Rightarrow> slide_data \<Rightarrow> string \<Rightarrow> pydict
     \<Rightarrow> outcome \<times> slide_data \<times> world" where
  \<comment> \<open>a keyword named like a parameter of the method is a \<^verbatim>\<open>TypeError\<close> at the call;
      the element is changed in place, so the slide holds the new attributes even when
      \<^verbatim>\<open>apply_filters\<close> is missing on an object whose type tag was set to \<^verbatim>\<open>image\<close>\<close>
  "update_element P R w s element_id updates =
     (if list_ex (\<lambda>(key, _). key = ''self'' \<or> key = ''element_id'') updates
      then (Inl TypeError, s, w)
      else case map_of (elements s) element_id of
        None \<Rightarrow> (Inr (RetBool False), s, w)
      | Some element \<Rightarrow>
          (let old_data = to_dict P element;
               element1 = fold (\<lambda>(key, val) e. if hasattr R e key then setattr R e key val else e)
                            updates element;
               (t, w1) = now P w;
               element2 = set_modified_at t element1;
               s1 = s\<lparr>elements := AList.update element_id element2 (elements s)\<rparr>
           in if elem_type element2 = ''image'' \<and> list_ex (\<lambda>(key, _). take 7 key = ''filter_'') updates
              then (case element2 of
                      ImageElement ie \<Rightarrow>
                        (let (ok, w2) = apply_filters P w1 ie (slide_id s1)
                         in record_update P w2 s1 element_id old_data updates)
                    | _ \<Rightarrow> (Inl AttributeError, s1, w1))
              else record_update P w1 s1 element_id old_data updates))"

definition z_key :: "(string \<times> element) list \<Rightarrow> string \<Rightarrow> int" where
  \<comment> \<open>\<^verbatim>\<open>lambda eid: self.elements[eid].z_index\<close>, called on present keys only\<close>
  "z_key els eid = (case map_of els eid of None \<Rightarrow> 0 | Some e \<Rightarrow> elem_z_index e)"

definition reorder_element ::
  "platform \<Rightarrow> world \<Rightarrow> slide_data \<Rightarrow> string \<Rightarrow> int \<Rightarrow> outcome \<times> slide_data \<times> world" where
  \<comment> \<open>\<^verbatim>\<open>list.sort(key=...)\<close> computes every key first, so a missing identifier raises
      \<^verbatim>\<open>KeyError\<close> with the list as it was; the sort is stable, as \<open>sort_key\<close> is\<close>
  "reorder_element P w s element_id new_z_index =
     (case map_of (elements s) element_id of
        None \<Rightarrow> (Inr (RetBool False), s, w)
      | Some element \<Rightarrow>
          (let old_z_index = elem_z_index element;
               s1 = s\<lparr>elements := AList.update element_id (set_z_index new_z_index element)
                                     (elements s)\<rparr>
           in if list_all (\<lambda>eid. map_of (elements s1) eid \<noteq> None) (element_order s1)
              then
                (let s2 = s1\<lparr>element_order := sort_key (z_key (elements s1)) (element_order s1)\<rparr>;
                     (s3, w3) = add_to_history P w s2 ''reorder_element'' element_id
                                  (PDict [(''old_z_index'', PInt old_z_index),
                                          (''new_z_index'', PInt new_z_index)]);
                     (s4, w4) = update_modified P w3 s3
                 in (Inr (RetBool True), s4, w4))
              else (Inl KeyError, s1, w)))"

subsection \<open>Queries\<close>

definition get_elements_by_type :: "slide_data \<Rightarrow> string \<Rightarrow> (string \<times> element) list" where
  "get_elements_by_type s element_type =
     filter (\<lambda>(eid, elem). elem_type elem = element_type) (elements s)"

fun elem_text :: "element \<Rightarrow> error + string" where
  \<comment> \<open>\<^verbatim>\<open>elem.text\<close>: only a \<^verbatim>\<open>TextElement\<close> has the attribute\<close>
  "elem_text (TextElement e) = Inr (el_text e)"
| "elem_text _ = Inl AttributeError"

fun texts_of :: "element list \<Rightarrow> error + string list" where
  "texts_of [] = Inr []"
| "texts_of (e # es) = ebind (elem_text e) (\<lambda>t. ebind (texts_of es) (\<lambda>ts. Inr (t # ts)))"

fun str_join :: "string \<Rightarrow> string list \<Rightarrow> string" where
  \<comment> \<open>\<^verbatim>\<open>sep.join(xs)\<close>\<close>
  "str_join sep [] = []"
| "str_join sep [x] = x"
| "str_join sep (x # y # ys) = x @ sep @ str_join sep (y # ys)"

definition get_all_text_content :: "slide_data \<Rightarrow> error + string" where
  "get_all_text_content s =
     ebind (texts_of (map snd (get_elements_by_type s ''text'')))
       (\<lambda>ts. Inr (str_join [CHR 0x0A] ts))"

fun count_words :: "platform \<Rightarrow> bool \<Rightarrow> string \<Rightarrow> int" where
  \<comment> \<open>\<^verbatim>\<open>len(text.split())\<close>: the runs of characters that are not white space; the flag
      says whether the previous character was inside a run\<close>
  "count_words P inside [] = 0"
| "count_words P inside (c # cs) =
     (if is_space P c then count_words P False cs
      else (if inside then 0 else 1) + count_words P True cs)"

record statistics =
  by_type :: "(string \<times> int) list"
  total_characters :: int
  total_words :: int
  image_count :: int

fun count_elements :: "platform \<Rightarrow> element list \<Rightarrow> statistics \<Rightarrow> error + statistics" where
  \<comment> \<open>the loop of \<^verbatim>\<open>get_slide_statistics\<close>\<close>
  "count_elements P [] st = Inr st"
| "count_elements P (element # es) st =
     (let t = elem_type element;
          st1 = st\<lparr>by_type := AList.update t
                    ((case map_of (by_type st) t of None \<Rightarrow> 0 | Some n \<Rightarrow> n) + 1) (by_type st)\<rparr>
      in if t = ''text'' then
           ebind (elem_text element) (\<lambda>txt.
             count_elements P es
               (st1\<lparr> total_characters := total_characters st1 + int (length txt),
                     total_words := total_words st1 + count_words P False txt \<rparr>))
         else if t = ''image'' then
           count_elements P es (st1\<lparr>image_count := image_count st1 + 1\<rparr>)
         else count_elements P es st1)"

definition get_slide_statistics :: "platform \<Rightarrow> slide_data \<Rightarrow> error + pydict" where
  "get_slide_statistics P s =
     ebind (count_elements P (map snd (elements s))
              \<lparr>by_type = [], total_characters = 0, total_words = 0, image_count = 0\<rparr>)
       (\<lambda>st. Inr [(''total_elements'', PInt (int (length (elements s)))),
                   (''by_type'', PDict (map (\<lambda>(t, n). (t, PInt n)) (by_type st))),
                   (''total_characters'', PInt (total_characters st)),
                   (''total_words'', PInt (total_words st)),
                   (''image_count'', PInt (image_count st)),
                   (''file_sizes'', PDict [])])"

definition create_thumbnail ::
  "platform \<Rightarrow> world \<Rightarrow> slide_data \<Rightarrow> image_element \<Rightarrow> string \<times> world" where
  \<comment> \<open>\<^verbatim>\<open>_create_thumbnail\<close>: an existing file is returned as it is; an exception gives
      the empty string\<close>
  "create_thumbnail P w s e =
     (let thumbnail_path = get_thumbnail_path s e in
      if os_path_exists w thumbnail_path then (thumbnail_path, w)
      else (case image_open P (files w) (os_path_join ''content'' [image_path e]) of
              None \<Rightarrow> ([], w)
            | Some img \<Rightarrow>
                (case image_save P (files w) (thumbnail P img) thumbnail_path (PInt 85) of
                   None \<Rightarrow> ([], w)
                 | Some fs \<Rightarrow> (thumbnail_path, w\<lparr>files := fs\<rparr>))))"

fun process_elements ::
  "platform \<Rightarrow> world \<Rightarrow> slide_data \<Rightarrow> (string \<times> element) list \<Rightarrow> pydict
     \<Rightarrow> (error + pydict) \<times> world" where
  \<comment> \<open>the loop of \<^verbatim>\<open>create_processed_version\<close>; the methods it calls exist on the class
      that the type tag names, or \<^verbatim>\<open>AttributeError\<close> is raised\<close>
  "process_elements P w s [] acc = (Inr acc, w)"
| "process_elements P w s ((element_id, element) # rest) acc =
     (let processed_element = to_dict P element in
      if elem_type element = ''image'' then
        (case element of
           ImageElement ie \<Rightarrow>
             (let processed_path = get_processed_path ie (slide_id s);
                  p1 = AList.update ''display_path''
                         (PStr (if os_path_exists w processed_path then processed_path
                                else image_path ie)) processed_element;
                  (th, w1) = create_thumbnail P w s ie;
                  p2 = AList.update ''thumbnail'' (PStr th) p1
              in process_elements P w1 s rest (AList.update element_id (PDict p2) acc))
         | _ \<Rightarrow> (Inl AttributeError, w))
      else if elem_type element = ''text'' then
        (case element of
           TextElement te \<Rightarrow>
             process_elements P w s rest
               (AList.update element_id
                  (PDict (AList.update ''formatted_text'' (PStr (get_formatted_text P te))
                            processed_element)) acc)
         | _ \<Rightarrow> (Inl AttributeError, w))
      else process_elements P w s rest (AList.update element_id (PDict processed_element) acc))"

definition py_copy :: "pyval \<Rightarrow> error + pyval" where
  \<comment> \<open>\<^verbatim>\<open>v.copy()\<close>: dictionaries and lists have the method\<close>
  "py_copy v = (case v of PDict d \<Rightarrow> Inr (PDict d) | PList xs \<Rightarrow> Inr (PList xs)
                | _ \<Rightarrow> Inl AttributeError)"

definition create_processed_version ::
  "platform \<Rightarrow> world \<Rightarrow> slide_data \<Rightarrow> (error + pydict) \<times> world" where
  "create_processed_version P w s =
     (case py_copy (config s) of
        Inl err \<Rightarrow> (Inl err, w)
      | Inr cfg \<Rightarrow>
          (let (t, w1) = now P w in
           case process_elements P w1 s (elements s) [] of
             (Inl err, w2) \<Rightarrow> (Inl err, w2)
           | (Inr els, w2) \<Rightarrow>
               (Inr [(''slide_id'', PInt (slide_id s)), (''title'', PStr (title s)),
                     (''background'', PDict [(''color'', sl_background_color s),
                                             (''image'', background_image s),
                                             (''gradient'', background_gradient s)]),
                     (''config'', cfg),
                     (''elements'', PDict els),
                     (''element_order'', PList (map PStr (element_order s))),
                     (''processed_at'', PStr (isoformat P t)),
                     (''version'', PInt (version s))], w2)))"

subsection \<open>\<^verbatim>\<open>SlideData.from_dict\<close>\<close>

definition as_list :: "pyval \<Rightarrow> error + pyval list" where
  "as_list v = (case v of PList xs \<Rightarrow> Inr xs | _ \<Rightarrow> Inl Unmodelled)"

fun restore_elements ::
  "platform \<Rightarrow> world \<Rightarrow> pydict \<Rightarrow> (string \<times> element) list
     \<Rightarrow> error + (string \<times> element) list \<times> world" where
  \<comment> \<open>the loop over \<^verbatim>\<open>elements_data.items()\<close>; a record whose type is none of the four
      is passed over\<close>
  "restore_elements P w [] acc = Inr (acc, w)"
| "restore_elements P w ((element_id, element_data) # rest) acc =
     ebind (as_dict element_data) (\<lambda>d.
       let element_type = dict_get d ''type'' (PStr ''text'') in
       if element_type = PStr ''text'' then
         ebind (TextElement_from_dict P w d) (\<lambda>(e, w').
           restore_elements P w' rest (AList.update element_id (TextElement e) acc))
       else if element_type = PStr ''image'' then
         ebind (ImageElement_from_dict P w d) (\<lambda>(e, w').
           restore_elements P w' rest (AList.update element_id (ImageElement e) acc))
       else if element_type = PStr ''icon'' then
         ebind (IconElement_from_dict P w d) (\<lambda>(e, w').
           restore_elements P w' rest (AList.update element_id (IconElement e) acc))
       else if element_type = PStr ''symbol'' then
         ebind (SymbolElement_from_dict P w d) (\<lambda>(e, w').
           restore_elements P w' rest (AList.update element_id (SymbolElement e) acc))
       else restore_elements P w rest acc)"

definition SlideData_from_dict ::
  "platform \<Rightarrow> world \<Rightarrow> pydict \<Rightarrow> error + slide_data \<times> world" where
  "SlideData_from_dict P w data =
     ebind (py_int P (dict_get data ''slide_id'' (PInt 1))) (\<lambda>sid.
     let (slide, w1) = SlideData_init P w sid (py_str P (dict_get data ''title'' (PStr [])))
                         (dict_get data ''background_color'' (PStr ''#ffffff'')) in
     ebind (as_int (dict_get data ''version'' (PInt 1))) (\<lambda>ver.
     ebind (ebind (as_list (dict_get data ''element_order'' (PList []))) as_str_list) (\<lambda>order.
     ebind (as_list (dict_get data ''change_history'' (PList []))) (\<lambda>history.
     let ((c, lm), w2) = restore_times P w1 data ''created_at'' ''last_modified'' in
     ebind (as_dict (dict_get data ''elements'' (PDict []))) (\<lambda>elements_data.
     ebind (restore_elements P w2 elements_data []) (\<lambda>(els, w3).
     Inr (slide\<lparr> background_image := dict_get data ''background_image'' PNone,
                 background_gradient := dict_get data ''background_gradient'' PNone,
                 version := ver,
                 config := dict_get data ''config'' (PDict []),
                 element_order := order,
                 change_history := history,
                 sl_created_at := c, last_modified := lm,
                 elements := els \<rparr>, w3)))))))"

subsection \<open>Calls and sequences of calls\<close>

datatype slide_op =
    AddText string real real real real pydict
  | AddImage string real real real real pydict
  | AddIcon string real real int pydict
  | AddSymbol string real real int pydict
  | RemoveElement string
  | UpdateElement string pydict
  | ReorderElement string int
  | GetElementsByType string
  | GetAllTextContent
  | GetSlideStatistics
  | CreateProcessedVersion

fun step ::
  "platform \<Rightarrow> reflection \<Rightarrow> world \<Rightarrow> slide_data \<Rightarrow> slide_op \<Rightarrow> outcome \<times> slide_data \<times> world" where
  \<comment> \<open>one method call on the slide; the four queries assign no attribute of the slide\<close>
  "step P R w s (AddText text x y wd ht options) = add_text_element P w s text x y wd ht options"
| "step P R w s (AddImage p x y wd ht options) = add_image_element P w s p x y wd ht options"
| "step P R w s (AddIcon code x y sz options) = add_icon_element P w s code x y sz options"
| "step P R w s (AddSymbol symb x y sz options) = add_symbol_element P w s symb x y sz options"
| "step P R w s (RemoveElement eid) = remove_element P w s eid"
| "step P R w s (UpdateElement eid updates) = update_element P R w s eid updates"
| "step P R w s (ReorderElement eid z) = reorder_element P w s eid z"
| "step P R w s (GetElementsByType t) = (Inr (RetElems (get_elements_by_type s t)), s, w)"
| "step P R w s GetAllTextContent =
     (case get_all_text_content s of Inl err \<Rightarrow> Inl err | Inr t \<Rightarrow> Inr (RetStr t), s, w)"
| "step P R w s GetSlideStatistics =
     (case get_slide_statistics P s of Inl err \<Rightarrow> Inl err | Inr d \<Rightarrow> Inr (RetDict d), s, w)"
| "step P R w s CreateProcessedVersion =
     (case create_processed_version P w s of
        (Inl err, w') \<Rightarrow> (Inl err, s, w')
      | (Inr d, w') \<Rightarrow> (Inr (RetDict d), s, w'))"

fun run ::
  "platform \<Rightarrow> reflection \<Rightarrow> world \<Rightarrow> slide_data \<Rightarrow> slide_op list \<Rightarrow> slide_data \<times> world" where
  \<comment> \<open>the calls one after the other; a caller that catches an exception goes on with the
      slide as the failed call left it\<close>
  "run P R w s [] = (s, w)"
| "run P R w s (op # ops) = (case step P R w s op of (out, s', w') \<Rightarrow> run P R w' s' ops)"

fun is_add :: "slide_op \<Rightarrow> bool" where
  "is_add (AddText _ _ _ _ _ _) = True"
| "is_add (AddImage _ _ _ _ _ _) = True"
| "is_add (AddIcon _ _ _ _ _) = True"
| "is_add (AddSymbol _ _ _ _ _) = True"
| "is_add _ = False"

fun is_mutating :: "slide_op \<Rightarrow> bool" where
  "is_mutating (RemoveElement _) = True"
| "is_mutating (UpdateElement _ _) = True"
| "is_mutating (ReorderElement _ _) = True"
| "is_mutating op = is_add op"

fun succeeded :: "slide_op \<Rightarrow> outcome \<Rightarrow> bool" where
  \<comment> \<open>a mutating call succeeds when an add returns the new identifier and when a
      removal, update or reordering returns \<^verbatim>\<open>True\<close>\<close>
  "succeeded op (Inr (RetStr _)) = is_add op"
| "succeeded op (Inr (RetBool b)) = (b \<and> is_mutating op \<and> \<not> is_add op)"
| "succeeded op _ = False"

section \<open>Notions used in the statements\<close>

definition take_last :: "nat \<Rightarrow> 'a list \<Rightarrow> 'a list" where
  \<comment> \<open>the last \<open>n\<close> entries, oldest first\<close>
  "take_last n xs = drop (length xs - n) xs"


fun recorded :: "platform \<Rightarrow> reflection \<Rightarrow> world \<Rightarrow> slide_data \<Rightarrow> slide_op list \<Rightarrow> pyval list" where
  \<comment> \<open>the history entries that the successful calls of a sequence append, in order,
      none dropped\<close>
  "recorded P R w s [] = []"
| "recorded P R w s (op # ops) =
     (case step P R w s op of
        (out, s', w') \<Rightarrow>
          (if succeeded op out then [last (change_history s')] else []) @ recorded P R w' s' ops)"

definition in_sync :: "slide_data \<Rightarrow> bool" where
  \<comment> \<open>\<^verbatim>\<open>element_order\<close> is a permutation of the keys of \<^verbatim>\<open>elements\<close>, without duplicates\<close>
  "in_sync s = (distinct (map fst (elements s)) \<and> distinct (element_order s) \<and>
                set (element_order s) = set (map fst (elements s)))"

fun ids_fresh :: "platform \<Rightarrow> reflection \<Rightarrow> world \<Rightarrow> slide_data \<Rightarrow> slide_op list \<Rightarrow> bool" where
  \<comment> \<open>every add of the sequence gives its element an identifier that is not a key of
      \<^verbatim>\<open>elements\<close> at that moment\<close>
  "ids_fresh P R w s [] = True"
| "ids_fresh P R w s (op # ops) =
     (case step P R w s op of
        (out, s', w') \<Rightarrow>
          (case out of
             Inr (RetStr i) \<Rightarrow> (if is_add op then i \<notin> set (map fst (elements s)) else True)
           | _ \<Rightarrow> True)
          \<and> ids_fresh P R w' s' ops)"






definition float_exact :: "platform \<Rightarrow> bool" where
  \<comment> \<open>what the statements on the sepia blend need of floating-point arithmetic, as
      IEEE 754 gives it: sums and products of non-negative numbers are not negative, and
      a sum or quotient of small integers that is an integer is exact\<close>
  "float_exact P =
     ((\<forall>x y. 0 \<le> x \<and> 0 \<le> y \<longrightarrow> 0 \<le> fmul P x y \<and> 0 \<le> fadd P x y) \<and>
      (\<forall>a b :: int. \<bar>a\<bar> \<le> 255 \<and> \<bar>b\<bar> \<le> 255 \<longrightarrow> fadd P (of_int a) (of_int b) = of_int (a + b)) \<and>
      (\<forall>n :: int. \<bar>n\<bar> \<le> 255 \<longrightarrow> fdiv P (of_int (n * 100)) 100 = of_int n))"

section \<open>A concrete platform\<close>

text \<open>
  A small platform, with exact arithmetic and a file system that never fails, on which
  the statements below are evaluated at concrete inputs.
\<close>

definition ascii_lower :: "char \<Rightarrow> char" where
  "ascii_lower c =
     (if (65 :: nat) \<le> of_char c \<and> (of_char c :: nat) \<le> 90 then char_of (of_char c + (32 :: nat))
      else c)"

definition test_platform :: platform where
  "test_platform = \<lparr>
     clock = (\<lambda>n. n),
     uuid4 = (\<lambda>n. replicate (Suc n) CHR ''u''),
     isoformat = (\<lambda>t. replicate (Suc t) CHR ''T''),
     fromisoformat = (\<lambda>s. if s \<noteq> [] \<and> list_all (\<lambda>c. c = CHR ''T'') s
                           then Some (length s - 1) else None),
     float_of_str = (\<lambda>s. None),
     int_of_str = (\<lambda>s. None),
     repr = (\<lambda>v. ''?''),
     str_upper = (\<lambda>s. s),
     str_lower = map ascii_lower,
     str_capitalize = (\<lambda>s. s),
     unicode_category = (\<lambda>c. ''Ll''),
     is_space = (\<lambda>c. c = CHR '' ''),
     fmul = (\<lambda>a b. a * b),
     fadd = (\<lambda>a b. a + b),
     fdiv = (\<lambda>a b. a / b),
     copy2 = (\<lambda>fs src dst. case map_of fs src of None \<Rightarrow> None
                             | Some bytes \<Rightarrow> Some (AList.update dst bytes fs)),
     os_remove = (\<lambda>fs p. Some (AList.delete p fs)),
     image_open = (\<lambda>fs p. case map_of fs p of None \<Rightarrow> None
                           | Some bytes \<Rightarrow> Some [map (\<lambda>n. (int n, int n, int n)) bytes]),
     image_probe = (\<lambda>fs p. None),
     image_save = (\<lambda>fs img p q. Some (AList.update p (map (\<lambda>(r, g, b). nat r) (concat img)) fs)),
     enhance_brightness = (\<lambda>f img. img),
     enhance_contrast = (\<lambda>f img. img),
     enhance_color = (\<lambda>f img. img),
     gaussian_blur = (\<lambda>r img. img),
     convert_gray = (\<lambda>img. img),
     blend = (\<lambda>a b f. a),
     thumbnail = (\<lambda>img. img) \<rparr>"

definition test_reflection :: reflection where
  "test_reflection = \<lparr>
     hasattr = (\<lambda>e key. key = ''z_index''),
     setattr = (\<lambda>e key val. case val of PInt z \<Rightarrow> set_z_index z e | _ \<Rightarrow> e) \<rparr>"

definition test_world :: world where
  "test_world = \<lparr> ticks = 0, draws = 0, files = [(''photo.TIFF'', [1, 2, 3]), (''logo.png'', [7])] \<rparr>"

definition test_slide :: slide_data where
  "test_slide = fst (SlideData_init test_platform test_world 1 ''Demo'' (PStr ''#ffffff''))"


definition known_variant :: "pyval \<Rightarrow> bool" where
  \<comment> \<open>an element record whose type is one of the four that \<^verbatim>\<open>SlideData.from_dict\<close>
      dispatches on\<close>
  "known_variant v = (case v of
       PDict d \<Rightarrow> dict_get d ''type'' (PStr ''text'')
                    \<in> set [PStr ''text'', PStr ''image'', PStr ''icon'', PStr ''symbol'']
     | _ \<Rightarrow> False)"

definition sample_picture :: image_element where
  "sample_picture = fst (ImageElement_init test_platform test_world ''logo.png'' (PStr ''logo'')
                           None 10 20 100 100)"

definition orphan_document :: pydict where
  \<comment> \<open>a stored slide whose order list names a record of an unknown type\<close>
  "orphan_document =
     [(''elements'', PDict [(''a'', PDict [(''type'', PStr ''video'')])]),
      (''element_order'', PList [PStr ''a''])]"


fun is_image_class :: "element \<Rightarrow> bool" where
  "is_image_class (ImageElement _) = True"
| "is_image_class _ = False"




section \<open>Serialising and restoring elements\<close>


















section \<open>The effect of each call on the slide\<close>

lemma add_to_history_effect:
  assumes "add_to_history P w s a i d = (s', w')"
  shows "version s' = version s" "elements s' = elements s" "element_order s' = element_order s"
        "slide_id s' = slide_id s"
        "\<exists>e. change_history s' = take_last 100 (change_history s @ [e])"
  using assms
  by (auto simp: add_to_history_def now_def take_last_def Let_def split: if_splits)

lemma update_modified_effect:
  assumes "update_modified P w s = (s', w')"
  shows "version s' = version s + 1" "elements s' = elements s"
        "element_order s' = element_order s" "slide_id s' = slide_id s"
        "change_history s' = change_history s"
  using assms by (auto simp: update_modified_def now_def Let_def)

lemma register_element_effect:
  assumes "register_element P w s e d = (s', w')"
  shows "version s' = version s + 1 \<and>
         elements s' = AList.update (elem_id e) e (elements s) \<and>
         element_order s' = element_order s @ [elem_id e] \<and>
         (\<exists>h. change_history s' = take_last 100 (change_history s @ [h]))"
proof -
  let ?s1 = "s\<lparr> elements := AList.update (elem_id e) e (elements s),
                  element_order := element_order s @ [elem_id e] \<rparr>"
  obtain s2 w2 where h: "add_to_history P w ?s1 ''add_element'' (elem_id e) d = (s2, w2)"
    by (metis surj_pair)
  with assms have u: "update_modified P w2 s2 = (s', w')"
    by (simp add: register_element_def Let_def)
  from add_to_history_effect[OF h] update_modified_effect[OF u]
  show ?thesis by simp
qed

lemma add_text_effect:
  assumes "add_text_element P w s t x y wd ht opts = (out, s', w')"
  shows "(\<exists>i e. out = Inr (RetStr i) \<and> version s' = version s + 1 \<and>
            elements s' = AList.update i e (elements s) \<and>
            element_order s' = element_order s @ [i] \<and>
            (\<exists>h. change_history s' = take_last 100 (change_history s @ [h])))
         \<or> ((\<exists>err. out = Inl err) \<or> out = Inr RetNone) \<and> s' = s"
proof (cases "ebind (check_keywords [''font_family'', ''font_size'', ''element_id''] opts) (\<lambda>_.
           ebind (option_id opts) (\<lambda>eid.
           TextElement_init P w (PStr t) (dict_get opts ''font_family'' (PStr ''Arial''))
             (dict_get opts ''font_size'' (PInt 16)) eid x y wd ht))")
  case (Inl a)
  with assms show ?thesis by (auto simp: add_text_element_def)
next
  case (Inr b)
  obtain el w1 where b: "b = (el, w1)" by (cases b)
  obtain s3 w3 where r: "register_element P w1 s (TextElement el)
      (PDict [(''type'', PStr ''text''), (''text'', PStr t)]) = (s3, w3)" by (metis surj_pair)
  from assms Inr b r have "out = Inr (RetStr (el_id el))" "s' = s3"
    by (simp_all add: add_text_element_def)
  with register_element_effect[OF r] show ?thesis by auto
qed

lemma add_icon_effect:
  assumes "add_icon_element P w s c x y sz opts = (out, s', w')"
  shows "(\<exists>i e. out = Inr (RetStr i) \<and> version s' = version s + 1 \<and>
            elements s' = AList.update i e (elements s) \<and>
            element_order s' = element_order s @ [i] \<and>
            (\<exists>h. change_history s' = take_last 100 (change_history s @ [h])))
         \<or> ((\<exists>err. out = Inl err) \<or> out = Inr RetNone) \<and> s' = s"
proof (cases "ebind (check_keywords [''icon_type'', ''element_id''] opts) (\<lambda>_.
           ebind (option_id opts) (\<lambda>eid.
           Inr (IconElement_init P w (PStr c) (dict_get opts ''icon_type'' (PStr ''unicode''))
                  eid x y (of_int sz) (of_int sz))))")
  case (Inl a)
  with assms show ?thesis by (auto simp: add_icon_element_def)
next
  case (Inr b)
  obtain el w1 where b: "b = (el, w1)" by (cases b)
  obtain s3 w3 where r: "register_element P w1 s (IconElement (el\<lparr>icon_size := PInt sz\<rparr>))
      (PDict [(''type'', PStr ''icon''), (''code'', PStr c)]) = (s3, w3)" by (metis surj_pair)
  from assms Inr b r have "out = Inr (RetStr (el_id el))" "s' = s3"
    by (simp_all add: add_icon_element_def Let_def)
  with register_element_effect[OF r] show ?thesis by auto
qed

lemma add_symbol_effect:
  assumes "add_symbol_element P w s c x y sz opts = (out, s', w')"
  shows "(\<exists>i e. out = Inr (RetStr i) \<and> version s' = version s + 1 \<and>
            elements s' = AList.update i e (elements s) \<and>
            element_order s' = element_order s @ [i] \<and>
            (\<exists>h. change_history s' = take_last 100 (change_history s @ [h])))
         \<or> ((\<exists>err. out = Inl err) \<or> out = Inr RetNone) \<and> s' = s"
proof (cases "ebind (check_keywords [''symbol_type'', ''element_id''] opts) (\<lambda>_.
           ebind (option_id opts) (\<lambda>eid.
           Inr (SymbolElement_init P w (PStr c) (dict_get opts ''symbol_type'' (PStr ''emoji''))
                  eid x y (of_int sz) (of_int sz))))")
  case (Inl a)
  with assms show ?thesis by (auto simp: add_symbol_element_def)
next
  case (Inr b)
  obtain el w1 where b: "b = (el, w1)" by (cases b)
  define el2 where "el2 = (if is_emoji P c then el\<lparr>symbol_size := PInt sz, symbol_type := PStr ''emoji''\<rparr>
                          else if is_mathematical_symbol c
                               then el\<lparr>symbol_size := PInt sz, symbol_type := PStr ''mathematical''\<rparr>
                          else el\<lparr>symbol_size := PInt sz\<rparr>)"
  obtain s3 w3 where r: "register_element P w1 s (SymbolElement el2)
      (PDict [(''type'', PStr ''symbol''), (''symbol'', PStr c)]) = (s3, w3)" by (metis surj_pair)
  have id: "el_id el2 = el_id el" by (simp add: el2_def)
  from assms Inr b r have "out = Inr (RetStr (el_id el2))" "s' = s3"
    by (simp_all add: add_symbol_element_def Let_def el2_def)
  with register_element_effect[OF r] show ?thesis by auto
qed

lemma add_image_effect:
  assumes "add_image_element P w s p x y wd ht opts = (out, s', w')"
  shows "(\<exists>i e. out = Inr (RetStr i) \<and> version s' = version s + 1 \<and>
            elements s' = AList.update i e (elements s) \<and>
            element_order s' = element_order s @ [i] \<and>
            (\<exists>h. change_history s' = take_last 100 (change_history s @ [h])))
         \<or> ((\<exists>err. out = Inl err) \<or> out = Inr RetNone) \<and> s' = s"
proof (cases "os_path_exists w p")
  case False
  with assms show ?thesis by (simp add: add_image_element_def)
next
  case True
  obtain cp w1 where c: "copy_image_to_slide_folder P w s p = (cp, w1)" by (metis surj_pair)
  show ?thesis
  proof (cases cp)
    case None
    with assms True c show ?thesis by (simp add: add_image_element_def)
  next
    case (Some copied)
    show ?thesis
    proof (cases "copied = []")
      case True
      with assms \<open>os_path_exists w p\<close> c Some show ?thesis by (simp add: add_image_element_def)
    next
      case ne: False
      show ?thesis
      proof (cases "ebind (check_keywords [''alt_text'', ''element_id''] opts) (\<lambda>_.
                     ebind (option_id opts) (\<lambda>eid.
                     Inr (ImageElement_init P w1 copied
                            (dict_get opts ''alt_text'' (PStr [])) eid x y wd ht)))")
        case (Inl a)
        with assms True c Some ne show ?thesis by (auto simp: add_image_element_def)
      next
        case (Inr b)
        obtain el w2 where b: "b = (el, w2)" by (cases b)
        define el2 where "el2 = el\<lparr> original_path := PStr p,
                                    image_info := get_image_info P w2 p \<rparr>"
        obtain s3 w3 where r: "register_element P w2 s (ImageElement el2)
            (PDict [(''type'', PStr ''image''), (''path'', PStr p)]) = (s3, w3)"
          by (metis surj_pair)
        from assms True c Some ne Inr b r have "out = Inr (RetStr (el_id el2))" "s' = s3"
          by (simp_all add: add_image_element_def Let_def el2_def split: prod.splits)
        with register_element_effect[OF r] show ?thesis by auto
      qed
    qed
  qed
qed

lemma remove_element_effect:
  assumes "remove_element P w s i = (out, s', w')"
  shows "(out = Inr (RetBool False) \<and> s' = s) \<or>
         (out = Inr (RetBool True) \<and> version s' = version s + 1 \<and>
          elements s' = AList.delete i (elements s) \<and>
          element_order s' = remove1 i (element_order s) \<and>
          (\<exists>h. change_history s' = take_last 100 (change_history s @ [h])))"
proof (cases "map_of (elements s) i")
  case None
  with assms show ?thesis by (simp add: remove_element_def)
next
  case (Some el)
  obtain s1 w1 where h: "add_to_history P w s ''remove_element'' i (PDict (to_dict P el)) = (s1, w1)"
    by (metis surj_pair)
  define w2 where "w2 = (case el of
                       ImageElement ie \<Rightarrow>
                         if el_type ie = ''image'' then remove_image_files P w1 s1 ie else w1
                     | _ \<Rightarrow> w1)"
  let ?s2 = "s1\<lparr> elements := AList.delete i (elements s1),
                  element_order := remove1 i (element_order s1) \<rparr>"
  obtain s3 w3 where u: "update_modified P w2 ?s2 = (s3, w3)" by (metis surj_pair)
  from assms Some h u have "out = Inr (RetBool True)" "s' = s3"
    by (simp_all add: remove_element_def Let_def w2_def)
  with add_to_history_effect[OF h] update_modified_effect[OF u] show ?thesis by simp
qed

lemma record_update_effect:
  assumes "record_update P w s i old new = (out, s', w')"
  shows "out = Inr (RetBool True) \<and> version s' = version s + 1 \<and>
         elements s' = elements s \<and> element_order s' = element_order s \<and>
         (\<exists>h. change_history s' = take_last 100 (change_history s @ [h]))"
proof -
  obtain s2 w2 where h: "add_to_history P w s ''update_element'' i
                       (PDict [(''old'', PDict old), (''new'', PDict new)]) = (s2, w2)"
    by (metis surj_pair)
  obtain s3 w3 where u: "update_modified P w2 s2 = (s3, w3)" by (metis surj_pair)
  from assms h u have "out = Inr (RetBool True)" "s' = s3"
    by (simp_all add: record_update_def Let_def)
  with add_to_history_effect[OF h] update_modified_effect[OF u] show ?thesis by simp
qed

lemma update_element_effect:
  assumes "update_element P R w s i upd = (out, s', w')"
  shows "(out = Inr (RetBool False) \<and> s' = s) \<or>
         (out = Inr (RetBool True) \<and> version s' = version s + 1 \<and>
          (\<exists>e0 e. map_of (elements s) i = Some e0 \<and> elements s' = AList.update i e (elements s)) \<and>
          element_order s' = element_order s \<and>
          (\<exists>h. change_history s' = take_last 100 (change_history s @ [h]))) \<or>
         ((\<exists>err. out = Inl err) \<and> version s' = version s \<and>
          (s' = s \<or>
           (\<exists>e0 e. map_of (elements s) i = Some e0 \<and> elements s' = AList.update i e (elements s))) \<and>
          element_order s' = element_order s \<and> change_history s' = change_history s)"
proof (cases "list_ex (\<lambda>(key, _). key = ''self'' \<or> key = ''element_id'') upd")
  case True
  with assms show ?thesis by (auto simp: update_element_def)
next
  case kw: False
  show ?thesis
  proof (cases "map_of (elements s) i")
    case None
    with assms kw show ?thesis by (simp add: update_element_def)
  next
    case (Some el)
    define el1 where "el1 = fold (\<lambda>(key, val) e. if hasattr R e key then setattr R e key val else e)
                              upd el"
    obtain t w1 where n: "now P w = (t, w1)" by (metis surj_pair)
    define el2 where "el2 = set_modified_at t el1"
    let ?s1 = "s\<lparr>elements := AList.update i el2 (elements s)\<rparr>"
    show ?thesis
    proof (cases "elem_type el2 = ''image'' \<and> list_ex (\<lambda>(key, _). take 7 key = ''filter_'') upd")
      case False
      with assms kw Some n have "record_update P w1 ?s1 i (to_dict P el) upd = (out, s', w')"
        by (auto simp: update_element_def Let_def el1_def el2_def)
      from record_update_effect[OF this] Some show ?thesis by auto
    next
      case True
      show ?thesis
      proof (cases el2)
        case (ImageElement ie)
        obtain ok w2 where a: "apply_filters P w1 ie (slide_id ?s1) = (ok, w2)" by (metis surj_pair)
        with assms kw Some n True ImageElement
        have "record_update P w2 ?s1 i (to_dict P el) upd = (out, s', w')"
          by (auto simp: update_element_def Let_def el1_def el2_def)
        from record_update_effect[OF this] Some show ?thesis by auto
      next
        case (TextElement x)
        with assms kw Some n True have "out = Inl AttributeError" "s' = ?s1"
          by (auto simp: update_element_def Let_def el1_def el2_def)
        with Some show ?thesis by auto
      next
        case (IconElement x)
        with assms kw Some n True have "out = Inl AttributeError" "s' = ?s1"
          by (auto simp: update_element_def Let_def el1_def el2_def)
        with Some show ?thesis by auto
      next
        case (SymbolElement x)
        with assms kw Some n True have "out = Inl AttributeError" "s' = ?s1"
          by (auto simp: update_element_def Let_def el1_def el2_def)
        with Some show ?thesis by auto
      qed
    qed
  qed
qed

lemma reorder_element_effect:
  assumes "reorder_element P w s i z = (out, s', w')"
  shows "(out = Inr (RetBool False) \<and> s' = s \<and> map_of (elements s) i = None) \<or>
         (out = Inr (RetBool True) \<and> version s' = version s + 1 \<and>
          (\<exists>e0. map_of (elements s) i = Some e0 \<and>
                elements s' = AList.update i (set_z_index z e0) (elements s)) \<and>
          list_all (\<lambda>eid. map_of (elements s') eid \<noteq> None) (element_order s) \<and>
          element_order s' = sort_key (z_key (elements s')) (element_order s) \<and>
          (\<exists>h. change_history s' = take_last 100 (change_history s @ [h]))) \<or>
         (out = Inl KeyError \<and> version s' = version s \<and>
          (\<exists>e0. map_of (elements s) i = Some e0 \<and>
                elements s' = AList.update i (set_z_index z e0) (elements s)) \<and>
          \<not> list_all (\<lambda>eid. map_of (elements s') eid \<noteq> None) (element_order s) \<and>
          element_order s' = element_order s \<and> change_history s' = change_history s)"
proof (cases "map_of (elements s) i")
  case None
  with assms show ?thesis by (simp add: reorder_element_def)
next
  case (Some el)
  let ?s1 = "s\<lparr>elements := AList.update i (set_z_index z el) (elements s)\<rparr>"
  show ?thesis
  proof (cases "list_all (\<lambda>eid. map_of (elements ?s1) eid \<noteq> None) (element_order ?s1)")
    case False
    with assms Some have "out = Inl KeyError" "s' = ?s1"
      by (simp_all add: reorder_element_def Let_def)
    with Some False show ?thesis by simp
  next
    case True
    let ?s2 = "?s1\<lparr>element_order := sort_key (z_key (elements ?s1)) (element_order ?s1)\<rparr>"
    obtain s3 w3 where h: "add_to_history P w ?s2 ''reorder_element'' i
                                  (PDict [(''old_z_index'', PInt (elem_z_index el)),
                                          (''new_z_index'', PInt z)]) = (s3, w3)"
      by (metis surj_pair)
    obtain s4 w4 where u: "update_modified P w3 s3 = (s4, w4)" by (metis surj_pair)
    from assms Some True h u have "out = Inr (RetBool True)" "s' = s4"
      by (simp_all add: reorder_element_def Let_def)
    with add_to_history_effect[OF h] update_modified_effect[OF u] Some True
    show ?thesis by simp
  qed
qed

section \<open>Version counter and history\<close>

lemma step_effect:
  assumes "step P R w s op = (out, s', w')"
  shows "(succeeded op out \<longrightarrow> version s' = version s + 1 \<and>
            (\<exists>h. change_history s' = take_last 100 (change_history s @ [h]))) \<and>
         (\<not> succeeded op out \<longrightarrow> version s' = version s \<and> change_history s' = change_history s)"
proof (cases op)
  case (AddText t x y wd ht opts)
  with assms add_text_effect[of P w s t x y wd ht opts out s' w'] show ?thesis by auto
next
  case (AddImage p x y wd ht opts)
  with assms add_image_effect[of P w s p x y wd ht opts out s' w'] show ?thesis by auto
next
  case (AddIcon c x y sz opts)
  with assms add_icon_effect[of P w s c x y sz opts out s' w'] show ?thesis by auto
next
  case (AddSymbol c x y sz opts)
  with assms add_symbol_effect[of P w s c x y sz opts out s' w'] show ?thesis by auto
next
  case (RemoveElement i)
  with assms remove_element_effect[of P w s i out s' w'] show ?thesis by auto
next
  case (UpdateElement i upd)
  with assms update_element_effect[of P R w s i upd out s' w'] show ?thesis by auto
next
  case (ReorderElement i z)
  with assms reorder_element_effect[of P w s i z out s' w'] show ?thesis by auto
next
  case (GetElementsByType t)
  with assms show ?thesis by auto
next
  case GetAllTextContent
  with assms show ?thesis by (auto split: sum.splits)
next
  case GetSlideStatistics
  with assms show ?thesis by (auto split: sum.splits)
next
  case CreateProcessedVersion
  with assms show ?thesis by (auto split: sum.splits prod.splits)
qed

lemma step_read_only:
  assumes "step P R w s op = (out, s', w')" "\<not> is_mutating op"
  shows "s' = s"
  using assms by (cases op) (auto split: sum.splits prod.splits)


lemma take_last_length: "length (take_last n xs) \<le> n"
  by (simp add: take_last_def)

lemma take_last_twice: "take_last n (take_last n xs @ ys) = take_last n (xs @ ys)"
  by (cases "n \<le> length xs") (simp_all add: take_last_def add.commute)

lemma take_last_last: "0 < n \<Longrightarrow> last (take_last n (xs @ [x])) = x"
  by (simp add: take_last_def)

lemma take_last_short: "length xs \<le> n \<Longrightarrow> take_last n xs = xs"
  by (simp add: take_last_def)

lemma run_history:
  "(recorded P R w s ops \<noteq> [] \<longrightarrow>
      change_history (fst (run P R w s ops))
        = take_last 100 (change_history s @ recorded P R w s ops)) \<and>
   (recorded P R w s ops = [] \<longrightarrow>
      change_history (fst (run P R w s ops)) = change_history s)"
proof (induction ops arbitrary: w s)
  case Nil
  show ?case by simp
next
  case (Cons op ops)
  obtain out s' w' where st: "step P R w s op = (out, s', w')" by (metis surj_pair)
  note IH = Cons.IH[of w' s']
  show ?case
  proof (cases "succeeded op out")
    case False
    with step_effect[OF st] IH st show ?thesis by simp
  next
    case True
    with step_effect[OF st] obtain h where
      h: "change_history s' = take_last 100 (change_history s @ [h])" by blast
    then have l: "last (change_history s') = h" by (simp add: take_last_last)
    have rec: "recorded P R w s (op # ops) = h # recorded P R w' s' ops"
      using st True l by simp
    have run: "run P R w s (op # ops) = run P R w' s' ops" using st by simp
    show ?thesis
    proof (cases "recorded P R w' s' ops = []")
      case True
      with IH rec run h show ?thesis by simp
    next
      case False
      with IH have "change_history (fst (run P R w' s' ops))
                      = take_last 100 (take_last 100 (change_history s @ [h]) @ recorded P R w' s' ops)"
        using h by simp
      also have "\<dots> = take_last 100 ((change_history s @ [h]) @ recorded P R w' s' ops)"
        by (rule take_last_twice)
      finally show ?thesis using rec run by simp
    qed
  qed
qed

lemmas eval_defs =
  add_text_element_def add_icon_element_def add_symbol_element_def add_image_element_def
  remove_element_def reorder_element_def update_element_def record_update_def
  register_element_def add_to_history_def update_modified_def
  TextElement_init_def IconElement_init_def SymbolElement_init_def ImageElement_init_def
  ContentElement_init_def SlideData_init_def
  check_keywords_def option_id_def dict_get_def ebind_def py_int_def py_str_def
  now_def new_uuid_def Let_def
  content_element.defs text_element.defs image_element.defs icon_element.defs symbol_element.defs
  get_all_text_content_def get_elements_by_type_def z_key_def
  test_platform_def test_reflection_def test_world_def test_slide_def



lemma set_modified_at_class [simp]:
  "elem_type (set_modified_at t e) = elem_type e"
  "is_image_class (set_modified_at t e) = is_image_class e"
  by (cases e; simp)+







text \<open>
  C7. After every successful mutating call the history holds at most 100 entries: the
  last hundred of the old history followed by the new entry. After a sequence of calls
  it holds the last hundred of everything recorded, oldest first, so the oldest entries
  are the ones dropped; and a history of at most 100 entries never grows beyond 100.
\<close>

theorem history_keeps_last_hundred:
  "(\<forall>out s' w'. step P R w s op = (out, s', w') \<and> succeeded op out \<longrightarrow>
       length (change_history s') \<le> 100 \<and>
       (\<exists>h. change_history s' = take_last 100 (change_history s @ [h]))) \<and>
   (recorded P R w s ops \<noteq> [] \<longrightarrow>
       change_history (fst (run P R w s ops))
         = take_last 100 (change_history s @ recorded P R w s ops) \<and>
       length (change_history (fst (run P R w s ops))) \<le> 100) \<and>
   (recorded P R w s ops = [] \<longrightarrow>
       change_history (fst (run P R w s ops)) = change_history s) \<and>
   (length (change_history s) \<le> 100 \<longrightarrow>
       length (change_history (fst (run P R w s ops))) \<le> 100)"
proof -
  have A: "\<forall>out s' w'. step P R w s op = (out, s', w') \<and> succeeded op out \<longrightarrow>
       length (change_history s') \<le> 100 \<and>
       (\<exists>h. change_history s' = take_last 100 (change_history s @ [h]))"
    using step_effect[of P R w s op] take_last_length[of 100] by metis
  note H = run_history[of P R w s ops]
  have B: "recorded P R w s ops \<noteq> [] \<longrightarrow>
       change_history (fst (run P R w s ops))
         = take_last 100 (change_history s @ recorded P R w s ops) \<and>
       length (change_history (fst (run P R w s ops))) \<le> 100"
    using H take_last_length[of 100 "change_history s @ recorded P R w s ops"] by simp
  have C: "length (change_history s) \<le> 100 \<longrightarrow>
       length (change_history (fst (run P R w s ops))) \<le> 100"
    using H B by (cases "recorded P R w s ops = []") (simp_all add: take_last_length)
  from A B C H show ?thesis by blast
qed

theorem history_keeps_last_hundred_witness:
  "(\<exists>out s' w' h.
      step test_platform test_reflection test_world
        (test_slide\<lparr>change_history := replicate 100 PNone\<rparr>) (AddText ''Hello'' 0 0 200 50 [])
        = (out, s', w') \<and>
      succeeded (AddText ''Hello'' 0 0 200 50 []) out \<and>
      change_history s' = replicate 99 PNone @ [h] \<and> length (change_history s') = 100) \<and>
   change_history (fst (run test_platform test_reflection test_world test_slide
                          [RemoveElement ''nobody''])) = []"
proof -
  let ?add = "AddText ''Hello'' 0 0 200 50 []"
  let ?s = "test_slide\<lparr>change_history := replicate 100 PNone\<rparr>"
  obtain out s' w' where st: "step test_platform test_reflection test_world ?s ?add = (out, s', w')"
    by (metis surj_pair)
  have a: "succeeded ?add (fst (step test_platform test_reflection test_world ?s ?add))"
    by (simp add: eval_defs)
  with st have su: "succeeded ?add out" by simp
  have h0: "change_history ?s = replicate 100 PNone" by simp
  from history_keeps_last_hundred[of test_platform test_reflection test_world ?s ?add "[]"] st su
  obtain h where h: "change_history s' = take_last 100 (change_history ?s @ [h])"
    by blast
  have "take_last 100 (replicate 100 PNone @ [h]) = replicate 99 PNone @ [h]"
    by (simp add: take_last_def)
  with h h0 have c: "change_history s' = replicate 99 PNone @ [h]" by simp
  have r: "recorded test_platform test_reflection test_world test_slide [RemoveElement ''nobody''] = []"
    by (simp add: eval_defs)
  have e: "change_history test_slide = []" by (simp add: eval_defs)
  from history_keeps_last_hundred[of test_platform test_reflection test_world test_slide
         ?add "[RemoveElement ''nobody'']"] r e
  have d: "change_history (fst (run test_platform test_reflection test_world test_slide
                          [RemoveElement ''nobody''])) = []"
    by simp
  from st su c d show ?thesis by auto
qed

section \<open>The order list and the element dictionary\<close>

lemma map_of_key: "map_of al k = Some v \<Longrightarrow> k \<in> set (map fst al)"
  by (metis map_of_eq_None_iff option.distinct(1) set_map)

lemma update_present_keys: "map_of al k = Some v \<Longrightarrow> map fst (AList.update k v' al) = map fst al"
  using map_of_key[of al k v] by (simp add: update_keys)

lemma delete_key_set: "fst ` set (AList.delete k al) = fst ` set al - {k}"
proof -
  have "set (map fst (AList.delete k al)) = set (removeAll k (map fst al))"
    by (simp only: delete_keys)
  then show ?thesis by simp
qed

lemma sync_add:
  "in_sync s \<Longrightarrow> i \<notin> set (map fst (elements s)) \<Longrightarrow>
   elements s' = AList.update i e (elements s) \<Longrightarrow>
   element_order s' = element_order s @ [i] \<Longrightarrow> in_sync s'"
  by (auto simp: in_sync_def update_keys distinct_update)

lemma sync_remove:
  "in_sync s \<Longrightarrow> elements s' = AList.delete i (elements s) \<Longrightarrow>
   element_order s' = remove1 i (element_order s) \<Longrightarrow> in_sync s'"
  by (simp add: in_sync_def delete_key_set distinct_delete)

lemma sync_update:
  "in_sync s \<Longrightarrow> map_of (elements s) i = Some e0 \<Longrightarrow>
   elements s' = AList.update i e (elements s) \<Longrightarrow>
   set (element_order s') = set (element_order s) \<Longrightarrow>
   distinct (element_order s') = distinct (element_order s) \<Longrightarrow> in_sync s'"
  by (simp add: in_sync_def update_present_keys)

lemma step_in_sync:
  assumes sync: "in_sync s"
      and st: "step P R w s op = (out, s', w')"
      and fresh: "\<forall>i. out = Inr (RetStr i) \<and> is_add op \<longrightarrow> i \<notin> set (map fst (elements s))"
  shows "in_sync s'"
proof -
  have add: "in_sync s'"
    if "is_add op"
       "(\<exists>i e. out = Inr (RetStr i) \<and> version s' = version s + 1 \<and>
            elements s' = AList.update i e (elements s) \<and>
            element_order s' = element_order s @ [i] \<and>
            (\<exists>h. change_history s' = take_last 100 (change_history s @ [h])))
         \<or> ((\<exists>err. out = Inl err) \<or> out = Inr RetNone) \<and> s' = s"
  proof -
    from that(2) show ?thesis
    proof
      assume "\<exists>i e. out = Inr (RetStr i) \<and> version s' = version s + 1 \<and>
            elements s' = AList.update i e (elements s) \<and>
            element_order s' = element_order s @ [i] \<and>
            (\<exists>h. change_history s' = take_last 100 (change_history s @ [h]))"
      then obtain i e where i: "out = Inr (RetStr i)" "elements s' = AList.update i e (elements s)"
        "element_order s' = element_order s @ [i]" by blast
      with fresh that(1) have "i \<notin> set (map fst (elements s))" by blast
      with sync i show ?thesis by (blast intro: sync_add)
    next
      assume "((\<exists>err. out = Inl err) \<or> out = Inr RetNone) \<and> s' = s"
      with sync show ?thesis by simp
    qed
  qed
  show ?thesis
  proof (cases op)
    case (AddText t x y wd ht opts)
    with st add add_text_effect[of P w s t x y wd ht opts out s' w'] show ?thesis by simp
  next
    case (AddImage p x y wd ht opts)
    with st add add_image_effect[of P w s p x y wd ht opts out s' w'] show ?thesis by simp
  next
    case (AddIcon c x y sz opts)
    with st add add_icon_effect[of P w s c x y sz opts out s' w'] show ?thesis by simp
  next
    case (AddSymbol c x y sz opts)
    with st add add_symbol_effect[of P w s c x y sz opts out s' w'] show ?thesis by simp
  next
    case (RemoveElement i)
    with st remove_element_effect[of P w s i out s' w'] sync show ?thesis
      by (auto intro: sync_remove)
  next
    case (UpdateElement i upd)
    with st update_element_effect[of P R w s i upd out s' w'] sync show ?thesis
      by (auto intro: sync_update)
  next
    case (ReorderElement i z)
    with st reorder_element_effect[of P w s i z out s' w'] sync show ?thesis
      by (auto intro: sync_update)
  next
    case (GetElementsByType t)
    with st sync step_read_only[OF st] show ?thesis by simp
  next
    case GetAllTextContent
    with st sync step_read_only[OF st] show ?thesis by simp
  next
    case GetSlideStatistics
    with st sync step_read_only[OF st] show ?thesis by simp
  next
    case CreateProcessedVersion
    with st sync step_read_only[OF st] show ?thesis by simp
  qed
qed

lemma run_in_sync: "in_sync s \<Longrightarrow> ids_fresh P R w s ops \<Longrightarrow> in_sync (fst (run P R w s ops))"
proof (induction ops arbitrary: w s)
  case Nil
  then show ?case by simp
next
  case (Cons op ops)
  obtain out s' w' where st: "step P R w s op = (out, s', w')" by (metis surj_pair)
  from Cons.prems(2) st
  have f: "\<forall>i. out = Inr (RetStr i) \<and> is_add op \<longrightarrow> i \<notin> set (map fst (elements s))"
    and rest: "ids_fresh P R w' s' ops"
    by (auto split: sum.splits retval.splits if_splits)
  from step_in_sync[OF Cons.prems(1) st f] have "in_sync s'" .
  from Cons.IH[OF this rest] st show ?case by simp
qed

lemma init_in_sync: "in_sync (fst (SlideData_init P w sid ttl bg))"
  by (simp add: SlideData_init_def in_sync_def now_def Let_def)

text \<open>
  C3 as stated fails: two adds that are given the same \<^verbatim>\<open>element_id\<close> leave one key in
  \<^verbatim>\<open>elements\<close> and the identifier twice in \<^verbatim>\<open>element_order\<close>.
\<close>

theorem element_order_duplicate_counterexample:
  "\<not> in_sync (fst (run test_platform test_reflection test_world test_slide
       [AddText ''a'' 0 0 200 50 [(''element_id'', PStr ''k'')],
        AddText ''b'' 0 0 200 50 [(''element_id'', PStr ''k'')]]))"
  by (simp add: eval_defs in_sync_def)

text \<open>
  C3, amended. Starting from a freshly constructed slide, after any sequence of calls in
  which every add gives its element an identifier that is not yet a key of \<^verbatim>\<open>elements\<close>,
  \<^verbatim>\<open>element_order\<close> has no duplicates and holds exactly the keys of \<^verbatim>\<open>elements\<close>.
\<close>

theorem element_order_in_sync:
  "in_sync (fst (SlideData_init P w sid ttl bg)) \<and>
   (in_sync s \<and> ids_fresh P R w s ops \<longrightarrow> in_sync (fst (run P R w s ops)))"
  using init_in_sync run_in_sync by blast

theorem element_order_in_sync_witness:
  "in_sync test_slide \<and>
   ids_fresh test_platform test_reflection test_world test_slide
     [AddText ''a'' 0 0 200 50 [], AddIcon ''i'' 5 5 24 [], ReorderElement ''u'' 3,
      RemoveElement ''uu''] \<and>
   in_sync (fst (run test_platform test_reflection test_world test_slide
     [AddText ''a'' 0 0 200 50 [], AddIcon ''i'' 5 5 24 [], ReorderElement ''u'' 3,
      RemoveElement ''uu'']))"
proof -
  let ?ops = "[AddText ''a'' 0 0 200 50 [], AddIcon ''i'' 5 5 24 [], ReorderElement ''u'' 3,
      RemoveElement ''uu'']"
  have f: "ids_fresh test_platform test_reflection test_world test_slide ?ops"
    by (simp add: eval_defs)
  have i: "in_sync test_slide"
    using element_order_in_sync[of test_platform test_world 1 "''Demo''" "PStr ''#ffffff''"]
    by (simp add: test_slide_def)
  from element_order_in_sync[of test_platform test_world 1 "''Demo''" "PStr ''#ffffff''"
         test_slide test_reflection ?ops] f i
  show ?thesis by blast
qed

section \<open>The text content of a slide\<close>



lemma elem_type_set_z [simp]: "elem_type (set_z_index z e) = elem_type e"
  by (cases e) simp_all

lemma elem_text_set_z [simp]: "elem_text (set_z_index z e) = elem_text e"
  by (cases e) simp_all






section \<open>Reordering\<close>

lemma map_of_update_present:
  "map_of al i = Some e0 \<Longrightarrow> (map_of (AList.update i v al) k \<noteq> None) = (map_of al k \<noteq> None)"
  by (simp add: update_conv')







section \<open>Rejected images\<close>

text \<open>
  C4. \<^verbatim>\<open>add_image_element\<close> with a path that does not exist, or whose extension in lower
  case is not in the list of supported formats, returns \<^verbatim>\<open>None\<close> and leaves the slide
  (elements, order, history, version) and the world as they were.
\<close>

theorem add_image_rejected:
  "\<not> os_path_exists w p \<or> str_lower P (snd (splitext p)) \<notin> set SUPPORTED_IMAGE_FORMATS
   \<Longrightarrow> add_image_element P w s p x y wd ht opts = (Inr RetNone, s, w)"
  by (auto simp: add_image_element_def copy_image_to_slide_folder_def Let_def)

lemma lower_tiff: "map ascii_lower ''.TIFF'' = ''.tiff''"
  by code_simp

lemma splitext_photo: "splitext ''photo.TIFF'' = (''photo'', ''.TIFF'')"
  by (simp add: splitext_def basename_def)

theorem add_image_rejected_witness:
  "os_path_exists test_world ''photo.TIFF'' \<and>
   str_lower test_platform (snd (splitext ''photo.TIFF'')) = ''.tiff'' \<and>
   ''.tiff'' \<notin> set SUPPORTED_IMAGE_FORMATS \<and>
   add_image_element test_platform test_world test_slide ''photo.TIFF'' 0 0 100 100 []
     = (Inr RetNone, test_slide, test_world) \<and>
   \<not> os_path_exists test_world ''missing.png'' \<and>
   add_image_element test_platform test_world test_slide ''missing.png'' 0 0 100 100 []
     = (Inr RetNone, test_slide, test_world)"
proof -
  have e: "os_path_exists test_world ''photo.TIFF''" "\<not> os_path_exists test_world ''missing.png''"
    by (simp_all add: os_path_exists_def test_world_def)
  have "str_lower test_platform = map ascii_lower"
    by (simp add: test_platform_def)
  then have l: "str_lower test_platform (snd (splitext ''photo.TIFF'')) = ''.tiff''"
    by (simp only: splitext_photo snd_conv lower_tiff)
  have n: "''.tiff'' \<notin> set SUPPORTED_IMAGE_FORMATS"
    by (simp add: SUPPORTED_IMAGE_FORMATS_def)
  from add_image_rejected[of test_world "''photo.TIFF''" test_platform test_slide 0 0 100 100 "[]"]
       add_image_rejected[of test_world "''missing.png''" test_platform test_slide 0 0 100 100 "[]"]
       e l n
  show ?thesis by simp
qed

section \<open>The filter pipeline\<close>

lemma trunc_of_int [simp]: "trunc_real (of_int n) = n"
  by (simp add: trunc_real_def)

lemma trunc_nonneg: "0 \<le> r \<Longrightarrow> 0 \<le> trunc_real r"
  by (simp add: trunc_real_def)

lemma weighted_nonneg:
  assumes "float_exact P" "0 \<le> a" "0 \<le> b" "0 \<le> c" "0 \<le> r" "0 \<le> g" "0 \<le> bl"
  shows "0 \<le> weighted P a b c (r, g, bl)"
proof -
  from assms(1) have nn: "\<And>x y. 0 \<le> x \<Longrightarrow> 0 \<le> y \<Longrightarrow> 0 \<le> fmul P x y \<and> 0 \<le> fadd P x y"
    by (simp add: float_exact_def)
  have "0 \<le> fmul P a (of_int r)" "0 \<le> fmul P b (of_int g)" "0 \<le> fmul P c (of_int bl)"
    using nn assms by simp_all
  then have "0 \<le> fadd P (fadd P (fmul P a (of_int r)) (fmul P b (of_int g))) (fmul P c (of_int bl))"
    using nn by simp
  then show ?thesis by (simp add: weighted_def trunc_nonneg)
qed

lemma mix_full:
  assumes "float_exact P" "0 \<le> c" "c \<le> 255" "0 \<le> tc" "tc \<le> 255"
  shows "mix P (NInt 100) c tc = tc"
proof -
  from assms(1) have d: "\<And>n :: int. \<bar>n\<bar> \<le> 255 \<Longrightarrow> fdiv P (of_int (n * 100)) 100 = of_int n"
    and a: "\<And>a b :: int. \<bar>a\<bar> \<le> 255 \<Longrightarrow> \<bar>b\<bar> \<le> 255 \<Longrightarrow> fadd P (of_int a) (of_int b) = of_int (a + b)"
    by (simp_all add: float_exact_def)
  have "\<bar>tc - c\<bar> \<le> 255" "\<bar>c\<bar> \<le> 255" using assms by simp_all
  then show ?thesis using d[of "tc - c"] a[of c "tc - c"] by (simp add: mix_def)
qed

lemma mix_none:
  assumes "float_exact P" "0 \<le> c" "c \<le> 255"
  shows "mix P (NInt 0) c tc = c"
proof -
  from assms(1) have d: "\<And>n :: int. \<bar>n\<bar> \<le> 255 \<Longrightarrow> fdiv P (of_int (n * 100)) 100 = of_int n"
    and a: "\<And>a b :: int. \<bar>a\<bar> \<le> 255 \<Longrightarrow> \<bar>b\<bar> \<le> 255 \<Longrightarrow> fadd P (of_int a) (of_int b) = of_int (a + b)"
    by (simp_all add: float_exact_def)
  have "\<bar>c\<bar> \<le> 255" using assms by simp
  then show ?thesis using d[of 0] a[of c 0] by (simp add: mix_def)
qed

lemma sepia_matrix_range:
  assumes "float_exact P" "0 \<le> r" "0 \<le> g" "0 \<le> b" "sepia_matrix P (r, g, b) = (tr, tg, tb)"
  shows "0 \<le> tr \<and> tr \<le> 255 \<and> 0 \<le> tg \<and> tg \<le> 255 \<and> 0 \<le> tb \<and> tb \<le> 255"
  using assms(5)
    weighted_nonneg[OF assms(1) _ _ _ assms(2,3,4), of "393 / 1000" "769 / 1000" "189 / 1000"]
    weighted_nonneg[OF assms(1) _ _ _ assms(2,3,4), of "349 / 1000" "686 / 1000" "168 / 1000"]
    weighted_nonneg[OF assms(1) _ _ _ assms(2,3,4), of "272 / 1000" "534 / 1000" "131 / 1000"]
  by (auto simp: sepia_matrix_def)

text \<open>
  C6. For a pixel with channels in 0..255 and floating-point sums and quotients that are
  exact on small integers, the sepia blend gives the clamped matrix transform at
  intensity 100 and the pixel itself at intensity 0; at an integer intensity \<open>i\<close> each
  channel is \<^verbatim>\<open>int(c + (tc - c) * i / 100)\<close>.
\<close>

theorem sepia_blend:
  assumes "float_exact P"
      and "0 \<le> r \<and> r \<le> 255 \<and> 0 \<le> g \<and> g \<le> 255 \<and> 0 \<le> b \<and> b \<le> 255"
  shows "sepia_pixel P (NInt 100) (r, g, b) =
           (min 255 (trunc_real (fadd P (fadd P (fmul P (393 / 1000) (of_int r))
                                                (fmul P (769 / 1000) (of_int g)))
                                        (fmul P (189 / 1000) (of_int b)))),
            min 255 (trunc_real (fadd P (fadd P (fmul P (349 / 1000) (of_int r))
                                                (fmul P (686 / 1000) (of_int g)))
                                        (fmul P (168 / 1000) (of_int b)))),
            min 255 (trunc_real (fadd P (fadd P (fmul P (272 / 1000) (of_int r))
                                                (fmul P (534 / 1000) (of_int g)))
                                        (fmul P (131 / 1000) (of_int b))))) \<and>
         sepia_pixel P (NInt 0) (r, g, b) = (r, g, b) \<and>
         sepia_pixel P (NInt i) (r, g, b) =
           (case sepia_matrix P (r, g, b) of (tr, tg, tb) \<Rightarrow>
              (trunc_real (fadd P (of_int r) (fdiv P (of_int ((tr - r) * i)) 100)),
               trunc_real (fadd P (of_int g) (fdiv P (of_int ((tg - g) * i)) 100)),
               trunc_real (fadd P (of_int b) (fdiv P (of_int ((tb - b) * i)) 100)))) \<and>
         apply_sepia P [[(r, g, b)]] (NInt 100) = [[sepia_matrix P (r, g, b)]] \<and>
         apply_sepia P [[(r, g, b)]] (NInt 0) = [[(r, g, b)]]"
proof -
  obtain tr tg tb where m: "sepia_matrix P (r, g, b) = (tr, tg, tb)"
    by (metis prod_cases3)
  from sepia_matrix_range[OF assms(1) _ _ _ m] assms(2)
  have rg: "0 \<le> tr \<and> tr \<le> 255 \<and> 0 \<le> tg \<and> tg \<le> 255 \<and> 0 \<le> tb \<and> tb \<le> 255" by simp
  have full: "sepia_pixel P (NInt 100) (r, g, b) = sepia_matrix P (r, g, b)"
    using m rg assms by (simp add: sepia_pixel_def mix_full)
  then have A: "sepia_pixel P (NInt 100) (r, g, b) =
           (min 255 (trunc_real (fadd P (fadd P (fmul P (393 / 1000) (of_int r))
                                                (fmul P (769 / 1000) (of_int g)))
                                        (fmul P (189 / 1000) (of_int b)))),
            min 255 (trunc_real (fadd P (fadd P (fmul P (349 / 1000) (of_int r))
                                                (fmul P (686 / 1000) (of_int g)))
                                        (fmul P (168 / 1000) (of_int b)))),
            min 255 (trunc_real (fadd P (fadd P (fmul P (272 / 1000) (of_int r))
                                                (fmul P (534 / 1000) (of_int g)))
                                        (fmul P (131 / 1000) (of_int b)))))"
    by (simp add: sepia_matrix_def weighted_def)
  have none: "sepia_pixel P (NInt 0) (r, g, b) = (r, g, b)"
    using m assms by (simp add: sepia_pixel_def mix_none)
  have C: "sepia_pixel P (NInt i) (r, g, b) =
           (case sepia_matrix P (r, g, b) of (tr, tg, tb) \<Rightarrow>
              (trunc_real (fadd P (of_int r) (fdiv P (of_int ((tr - r) * i)) 100)),
               trunc_real (fadd P (of_int g) (fdiv P (of_int ((tg - g) * i)) 100)),
               trunc_real (fadd P (of_int b) (fdiv P (of_int ((tb - b) * i)) 100))))"
    by (simp add: sepia_pixel_def mix_def m)
  have D: "apply_sepia P [[(r, g, b)]] (NInt 100) = [[sepia_matrix P (r, g, b)]]"
    using full by (simp add: apply_sepia_def)
  have E: "apply_sepia P [[(r, g, b)]] (NInt 0) = [[(r, g, b)]]"
    using none by (simp add: apply_sepia_def)
  from A none C D E show ?thesis by blast
qed

lemma test_platform_exact: "float_exact test_platform"
  by (simp add: float_exact_def test_platform_def)

theorem sepia_blend_witness:
  "float_exact test_platform \<and>
   sepia_pixel test_platform (NInt 100) (100, 150, 200) = (192, 171, 133) \<and>
   sepia_pixel test_platform (NInt 0) (100, 150, 200) = (100, 150, 200) \<and>
   sepia_pixel test_platform (NInt 50) (100, 150, 200) = (146, 160, 166)"
proof -
  have f: "fmul test_platform = (*)" "fadd test_platform = (+)" "fdiv test_platform = (/)"
    by (simp_all add: test_platform_def)
  have m: "sepia_matrix test_platform (100, 150, 200) = (192, 171, 133)"
    by (simp add: sepia_matrix_def weighted_def f trunc_real_def)
  have rg: "(0 :: int) \<le> 100 \<and> (100 :: int) \<le> 255 \<and> (0 :: int) \<le> 150 \<and> (150 :: int) \<le> 255 \<and>
            (0 :: int) \<le> 200 \<and> (200 :: int) \<le> 255"
    by simp
  from sepia_blend[OF test_platform_exact rg, of 50] m
  show ?thesis
    by (simp add: test_platform_exact f trunc_real_def)
qed

lemma filter_stages_cong:
  assumes "\<forall>k. k \<noteq> ''hue'' \<and> k \<noteq> ''invert'' \<longrightarrow> subscript fe1 k = subscript fe2 k"
  shows "filter_stages P fe1 img = filter_stages P fe2 img"
proof -
  have s: "subscript fe1 ''brightness'' = subscript fe2 ''brightness''"
          "subscript fe1 ''contrast'' = subscript fe2 ''contrast''"
          "subscript fe1 ''saturation'' = subscript fe2 ''saturation''"
          "subscript fe1 ''blur'' = subscript fe2 ''blur''"
          "subscript fe1 ''sepia'' = subscript fe2 ''sepia''"
          "subscript fe1 ''grayscale'' = subscript fe2 ''grayscale''"
    using assms by simp_all
  show ?thesis
    by (simp add: filter_stages_def scale_stage_def positive_stage_def s)
qed

text \<open>
  C9. The result of \<^verbatim>\<open>apply_filters\<close> (the flag it returns and the files it leaves) does
  not depend on the \<^verbatim>\<open>hue\<close> and \<^verbatim>\<open>invert\<close> entries of the filter bank: two banks that agree
  on every other key give the same result on the same element, slide and world.
\<close>

theorem filters_ignore_hue_and_invert:
  assumes "\<forall>k. k \<noteq> ''hue'' \<and> k \<noteq> ''invert'' \<longrightarrow> subscript fe1 k = subscript fe2 k"
  shows "apply_filters P w (e\<lparr>filter_effects := fe1\<rparr>) sid
           = apply_filters P w (e\<lparr>filter_effects := fe2\<rparr>) sid"
  using filter_stages_cong[OF assms]
  by (simp add: apply_filters_def get_processed_path_def cong: option.case_cong)

theorem filters_ignore_hue_and_invert_witness:
  "apply_filters test_platform test_world
      (sample_picture\<lparr>filter_effects := PDict [(''brightness'', PInt 100), (''contrast'', PInt 100),
         (''saturation'', PInt 100), (''hue'', PInt 0), (''blur'', PInt 0),
         (''grayscale'', PInt 0), (''sepia'', PInt 100), (''invert'', PInt 0)]\<rparr>) 1
     = apply_filters test_platform test_world
      (sample_picture\<lparr>filter_effects := PDict [(''brightness'', PInt 100), (''contrast'', PInt 100),
         (''saturation'', PInt 100), (''hue'', PInt 180), (''blur'', PInt 0),
         (''grayscale'', PInt 0), (''sepia'', PInt 100), (''invert'', PInt 100)]\<rparr>) 1 \<and>
   fst (apply_filters test_platform test_world
      (sample_picture\<lparr>filter_effects := PDict [(''brightness'', PInt 100), (''contrast'', PInt 100),
         (''saturation'', PInt 100), (''hue'', PInt 0), (''blur'', PInt 0),
         (''grayscale'', PInt 0), (''sepia'', PInt 100), (''invert'', PInt 0)]\<rparr>) 1)"
proof -
  let ?fe1 = "PDict [(''brightness'', PInt 100), (''contrast'', PInt 100),
         (''saturation'', PInt 100), (''hue'', PInt 0), (''blur'', PInt 0),
         (''grayscale'', PInt 0), (''sepia'', PInt 100), (''invert'', PInt 0)]"
  let ?fe2 = "PDict [(''brightness'', PInt 100), (''contrast'', PInt 100),
         (''saturation'', PInt 100), (''hue'', PInt 180), (''blur'', PInt 0),
         (''grayscale'', PInt 0), (''sepia'', PInt 100), (''invert'', PInt 100)]"
  have h: "\<forall>k. k \<noteq> ''hue'' \<and> k \<noteq> ''invert'' \<longrightarrow> subscript ?fe1 k = subscript ?fe2 k"
    by (simp add: subscript_def)
  have ran: "fst (apply_filters test_platform test_world (sample_picture\<lparr>filter_effects := ?fe1\<rparr>) 1)"
    by (simp add: apply_filters_def os_path_exists_def test_world_def test_platform_def
          sample_picture_def ImageElement_init_def ContentElement_init_def new_uuid_def now_def
          Let_def content_element.defs image_element.defs filter_stages_def scale_stage_def
          positive_stage_def subscript_def num_of_def)
  from filters_ignore_hue_and_invert[OF h, of test_platform test_world sample_picture 1] ran
  show ?thesis by simp
qed

section \<open>Restoring a slide\<close>

lemma restore_elements_keys:
  "restore_elements P w ed acc = Inr (els, w') \<Longrightarrow>
   set (map fst els) \<subseteq> set (map fst acc) \<union> set (map fst (filter (known_variant \<circ> snd) ed))"
proof (induction ed arbitrary: w acc)
  case Nil
  then show ?case by simp
next
  case (Cons p ed)
  obtain k v where p: "p = (k, v)" by (cases p)
  from Cons.prems p obtain d where d: "v = PDict d"
    by (cases v) (simp_all add: ebind_def as_dict_def)
  let ?t = "dict_get d ''type'' (PStr ''text'')"
  show ?case
  proof (cases "?t \<in> set [PStr ''text'', PStr ''image'', PStr ''icon'', PStr ''symbol'']")
    case False
    with Cons.prems p d have "restore_elements P w ed acc = Inr (els, w')"
      by (simp add: ebind_def as_dict_def Let_def)
    from Cons.IH[OF this] show ?thesis by (auto simp: p)
  next
    case True
    then have kv: "known_variant v" by (simp add: known_variant_def d)
    from True Cons.prems p d obtain e w1 where
      "restore_elements P w1 ed (AList.update k e acc) = Inr (els, w')"
      by (auto simp: ebind_def as_dict_def Let_def split: sum.splits if_splits)
    from Cons.IH[OF this] kv show ?thesis
      by (auto simp: p update_keys split: if_splits)
  qed
qed

lemma from_dict_order:
  assumes "SlideData_from_dict P w data = Inr (s, w')"
  shows "dict_get data ''element_order'' (PList []) = PList (map PStr (element_order s))"
proof -
  have str_list: "\<And>vs ss. as_str_list vs = Inr ss \<Longrightarrow> vs = map PStr ss"
  proof -
    fix vs ss show "as_str_list vs = Inr ss \<Longrightarrow> vs = map PStr ss"
    proof (induction vs arbitrary: ss)
      case Nil
      then show ?case by simp
    next
      case (Cons v vs)
      then show ?case
        by (cases v) (auto simp: ebind_def as_str_def split: sum.splits)
    qed
  qed
  from assms obtain vs where
    l: "dict_get data ''element_order'' (PList []) = PList vs"
    and o: "as_str_list vs = Inr (element_order s)"
    by (cases "dict_get data ''element_order'' (PList [])")
       (auto simp: SlideData_from_dict_def ebind_def as_list_def Let_def
             split: sum.splits prod.splits)
  from str_list[OF o] l show ?thesis by simp
qed

lemma from_dict_elements:
  assumes "SlideData_from_dict P w data = Inr (s, w')"
      and "dict_get data ''elements'' (PDict []) = PDict ed"
  shows "set (map fst (elements s)) \<subseteq> set (map fst (filter (known_variant \<circ> snd) ed))"
proof -
  from assms obtain w2 w3 where "restore_elements P w2 ed [] = Inr (elements s, w3)"
    by (auto simp: SlideData_from_dict_def ebind_def as_dict_def Let_def
             split: sum.splits prod.splits)
  from restore_elements_keys[OF this] show ?thesis by simp
qed

lemma orphan_restored:
  "\<exists>s w'. SlideData_from_dict P w orphan_document = Inr (s, w') \<and>
           element_order s = [''a''] \<and> elements s = []"
proof -
  obtain s0 w1 where i: "SlideData_init P w 1 [] (PStr ''#ffffff'') = (s0, w1)"
    by (metis surj_pair)
  obtain c lm w2 where t: "restore_times P w1 orphan_document ''created_at'' ''last_modified''
                             = ((c, lm), w2)"
    by (metis surj_pair)
  from i t show ?thesis
    by (simp add: SlideData_from_dict_def orphan_document_def dict_get_def ebind_def py_int_def
          py_str_def as_int_def as_list_def as_str_def as_dict_def Let_def)
qed

text \<open>
  C10. \<^verbatim>\<open>SlideData.from_dict\<close> takes \<^verbatim>\<open>element_order\<close> from the document as it is, and
  restores no element whose record has a type other than the four known ones. So there
  is a document (one whose order list names a record of unknown type), for every clock
  and world, whose slide has an identifier in \<^verbatim>\<open>element_order\<close> that is no key of
  \<^verbatim>\<open>elements\<close>.
\<close>

theorem from_dict_leaves_order_unsynced:
  "(\<forall>s w'. SlideData_from_dict P w data = Inr (s, w') \<longrightarrow>
      dict_get data ''element_order'' (PList []) = PList (map PStr (element_order s)) \<and>
      (\<forall>ed. dict_get data ''elements'' (PDict []) = PDict ed \<longrightarrow>
         set (map fst (elements s)) \<subseteq> set (map fst (filter (known_variant \<circ> snd) ed)))) \<and>
   (\<exists>doc s w'. SlideData_from_dict P w doc = Inr (s, w') \<and>
      \<not> set (element_order s) \<subseteq> set (map fst (elements s)))"
proof -
  from orphan_restored[of P w]
  have "\<exists>doc s w'. SlideData_from_dict P w doc = Inr (s, w') \<and>
      \<not> set (element_order s) \<subseteq> set (map fst (elements s))"
    by force
  with from_dict_order[of P w data] from_dict_elements[of P w data] show ?thesis by blast
qed

theorem from_dict_leaves_order_unsynced_witness:
  "\<exists>s w'. SlideData_from_dict test_platform test_world orphan_document = Inr (s, w') \<and>
     dict_get orphan_document ''element_order'' (PList []) = PList (map PStr (element_order s)) \<and>
     element_order s = [''a''] \<and> elements s = [] \<and> \<not> in_sync s"
proof -
  from orphan_restored[of test_platform test_world] obtain s w' where
    r: "SlideData_from_dict test_platform test_world orphan_document = Inr (s, w')"
       "element_order s = [''a'']" "elements s = []"
    by blast
  from from_dict_leaves_order_unsynced[of test_platform test_world orphan_document] r(1)
  have "dict_get orphan_document ''element_order'' (PList []) = PList (map PStr (element_order s))"
    by blast
  with r show ?thesis by (auto simp: in_sync_def)
qed

end
